theory Spec2Isabelle
  imports Main
begin

text \<open>
  The Table Read server: a host creates a room for a script, players join and claim
  characters, and the server walks the room through the beats of the script. This theory
  gives the server's room table and its socket handlers as functions, and proves what the
  specification says about them.
\<close>

section \<open>Data model\<close>

text \<open>
  The server keeps every room in one table \<open>rooms\<close>, keyed by the room code. The comment in
  the source gives the shape of an entry:
  \<^verbatim>\<open>{ [code]: { hostId, hostName, players:[{id,name}], script,
              assignments:{char:name|null}, state, currentBeat } }\<close>
  A script of the catalogue has a title, a list of characters and a list of beats; a beat
  has a \<open>type\<close> (the code only ever asks whether it is \<open>'dialogue'\<close>), and a dialogue beat
  names a character.
\<close>

record character =
  cname :: string
  lineCount :: nat

record beat =
  btype :: string
  bcharacter :: string
  btext :: string

record script =
  title :: string
  characters :: "character list"
  beats :: "beat list"

datatype room_state = Lobby | Performance | Ended

datatype role = Host | Player

record player =
  pid :: nat
  pname :: string

text \<open>
  A string is the UTF-8 encoding of the JavaScript string.

  \<open>assignments\<close> is a JavaScript object from character names to an owner name or \<open>null\<close>.
  The map holds its own properties: a key that is absent is \<open>None\<close>, a key holding \<open>null\<close>
  is \<open>Some None\<close>, a key holding the name \<open>n\<close> is \<open>Some (Some n)\<close>. The object is created as
  \<open>{}\<close>, so it also sees the properties of \<open>Object.prototype\<close>; \<open>inheriting\<close> says whether it
  still has that prototype (an assignment to \<open>__proto__\<close> can take it away).
\<close>

type_synonym assignments = "string \<rightharpoonup> string option"

record room =
  hostId :: nat
  hostName :: string
  players :: "player list"
  script :: script
  assignments :: assignments
  state :: room_state
  currentBeat :: nat
  inheriting :: bool

type_synonym rooms = "string \<rightharpoonup> room"

text \<open>
  \<open>socket.data\<close> is empty for a fresh connection; \<open>create-room\<close> and \<open>join-room\<close> set its
  three fields \<open>code\<close>, \<open>role\<close> and \<open>name\<close> together. The id of a connection is only ever
  compared with other ids; it is a number here.
\<close>

record sockdata =
  sd_code :: string
  sd_role :: role
  sd_name :: string

record sock =
  sid :: nat
  sdata :: "sockdata option"

text \<open>What a handler sends: events to a room or to one socket, and timers it sets.\<close>

datatype event =
    EvPlayerList string "(string \<times> bool) list"
  | EvAssignments string assignments
  | EvCastingComplete string bool
  | EvBeat string nat nat beat "string option"
  | EvPerformanceStarted string string
  | EvPerformanceEnded string
  | EvHostLeft string
  | EvKicked nat string
  | EvPong nat

datatype ack =
    AckError string
  | AckCreated string string "character list"
  | AckJoined string string "character list" assignments

record timer =
  t_code :: string
  t_beatIndex :: nat
  t_delay :: nat

record out =
  events :: "event list"
  timers :: "timer list"

text \<open>
  A property read of \<open>undefined\<close> raises a \<open>TypeError\<close>. Nothing in the server catches it,
  so the process ends with it: a handler that raises has no state after it.
\<close>

datatype error = TypeError

record result =
  r_rooms :: rooms
  r_data :: "sockdata option"
  r_ack :: "ack option"
  r_events :: "event list"
  r_timers :: "timer list"

definition no_out :: out where
  "no_out = \<lparr>events = [], timers = []\<rparr>"

definition noop :: "sock \<Rightarrow> rooms \<Rightarrow> result" where
  "noop s rs = \<lparr>r_rooms = rs, r_data = sdata s, r_ack = None, r_events = [], r_timers = []\<rparr>"

section \<open>JavaScript values\<close>

text \<open>Truthiness of a value that is a string or \<open>null\<close>: \<open>null\<close> and \<open>''\<close> are falsy.\<close>

fun truthy :: "string option \<Rightarrow> bool" where
  "truthy None = False"
| "truthy (Some s) = (s \<noteq> [])"

text \<open>\<open>v || null\<close> for a string, \<open>null\<close> or \<open>undefined\<close>.\<close>

definition or_null :: "string option \<Rightarrow> string option" where
  "or_null v = (if truthy v then v else None)"

definition isDialogue :: "beat \<Rightarrow> bool" where
  "isDialogue b = (btype b = ''dialogue'')"

text \<open>
  The names of the properties of \<open>Object.prototype\<close>. An object created as \<open>{}\<close> has them
  through its prototype: \<open>name in obj\<close> is true for them, and \<open>obj[name]\<close> reads a function
  (for \<open>__proto__\<close> the prototype itself), which is truthy and equal to no string.
\<close>

definition inherited :: "string \<Rightarrow> bool" where
  "inherited k =
     (k \<in> set [''constructor'', ''__defineGetter__'', ''__defineSetter__'', ''hasOwnProperty'',
                ''__lookupGetter__'', ''__lookupSetter__'', ''isPrototypeOf'',
                ''propertyIsEnumerable'', ''toString'', ''valueOf'', ''__proto__'',
                ''toLocaleString''])"

text \<open>
  \<open>key in room.assignments\<close>: the key is a property of the object itself or, while the
  object has its prototype, a property of \<open>Object.prototype\<close>.
\<close>

definition hasProperty :: "room \<Rightarrow> string \<Rightarrow> bool" where
  "hasProperty r k = (assignments r k \<noteq> None \<or> (inheriting r \<and> inherited k))"

text \<open>
  \<open>room.assignments[key]\<close> as a condition: the value of a key of the object itself is
  truthy or not; an inherited property is truthy; a key that is neither reads \<open>undefined\<close>,
  which is falsy.
\<close>

definition truthy_at :: "room \<Rightarrow> string \<Rightarrow> bool" where
  "truthy_at r k =
     (case assignments r k of None \<Rightarrow> inheriting r \<and> inherited k | Some v \<Rightarrow> truthy v)"

text \<open>
  \<open>room.assignments[key] = v\<close> stores the value under the key, as a property of the object
  itself. The one exception is \<open>__proto__\<close> when the object inherits it: that property of
  \<open>Object.prototype\<close> is an accessor, and its setter stores nothing; given \<open>null\<close> it takes
  the prototype away, given a string it does nothing.
\<close>

definition assign :: "room \<Rightarrow> string \<Rightarrow> string option \<Rightarrow> room" where
  "assign r k v =
     (if assignments r k = None \<and> inheriting r \<and> k = ''__proto__''
      then (if v = None then r\<lparr>inheriting := False\<rparr> else r)
      else r\<lparr>assignments := (assignments r)(k \<mapsto> v)\<rparr>)"

text \<open>
  \<open>String.prototype.trim\<close> removes white space and line terminators from both ends: the
  code points U+0009 to U+000D, U+0020, U+00A0, U+1680, U+2000 to U+200A, U+2028, U+2029,
  U+202F, U+205F, U+3000 and U+FEFF, here in UTF-8.
\<close>

definition white_space :: "string list" where
  "white_space =
     [[CHR 0x09], [CHR 0x0A], [CHR 0x0B], [CHR 0x0C], [CHR 0x0D], [CHR 0x20],
      [CHR 0xC2, CHR 0xA0],
      [CHR 0xE1, CHR 0x9A, CHR 0x80],
      [CHR 0xE2, CHR 0x80, CHR 0x80], [CHR 0xE2, CHR 0x80, CHR 0x81],
      [CHR 0xE2, CHR 0x80, CHR 0x82], [CHR 0xE2, CHR 0x80, CHR 0x83],
      [CHR 0xE2, CHR 0x80, CHR 0x84], [CHR 0xE2, CHR 0x80, CHR 0x85],
      [CHR 0xE2, CHR 0x80, CHR 0x86], [CHR 0xE2, CHR 0x80, CHR 0x87],
      [CHR 0xE2, CHR 0x80, CHR 0x88], [CHR 0xE2, CHR 0x80, CHR 0x89],
      [CHR 0xE2, CHR 0x80, CHR 0x8A],
      [CHR 0xE2, CHR 0x80, CHR 0xA8], [CHR 0xE2, CHR 0x80, CHR 0xA9],
      [CHR 0xE2, CHR 0x80, CHR 0xAF],
      [CHR 0xE2, CHR 0x81, CHR 0x9F],
      [CHR 0xE3, CHR 0x80, CHR 0x80],
      [CHR 0xEF, CHR 0xBB, CHR 0xBF]]"

text \<open>The white space a string starts with, and the white space it ends with.\<close>

definition leading :: "string \<Rightarrow> string option" where
  "leading s = find (\<lambda>w. take (length w) s = w) white_space"

definition trailing :: "string \<Rightarrow> string option" where
  "trailing s = find (\<lambda>w. length w \<le> length s \<and> drop (length s - length w) s = w) white_space"

function trimStart :: "string \<Rightarrow> string" where
  "trimStart s = (case leading s of None \<Rightarrow> s | Some w \<Rightarrow> trimStart (drop (length w) s))"
  by pat_completeness auto
termination
proof (relation "measure length")
  show "wf (measure length)" by simp
next
  fix s w :: string
  assume "leading s = Some w"
  then have "w \<in> set white_space" and w: "take (length w) s = w"
    by (auto simp: leading_def find_Some_iff)
  then have "w \<noteq> []" by (auto simp: white_space_def)
  with w have "s \<noteq> []" by auto
  with \<open>w \<noteq> []\<close> show "(drop (length w) s, s) \<in> measure length" by simp
qed

function trimEnd :: "string \<Rightarrow> string" where
  "trimEnd s = (case trailing s of None \<Rightarrow> s | Some w \<Rightarrow> trimEnd (take (length s - length w) s))"
  by pat_completeness auto
termination
proof (relation "measure length")
  show "wf (measure length)" by simp
next
  fix s w :: string
  assume "trailing s = Some w"
  then have "w \<in> set white_space" and w: "length w \<le> length s"
    by (auto simp: trailing_def find_Some_iff)
  then have "w \<noteq> []" by (auto simp: white_space_def)
  with w show "(take (length s - length w) s, s) \<in> measure length" by (cases s) auto
qed

declare trimStart.simps [simp del]

declare trimEnd.simps [simp del]

definition trim :: "string \<Rightarrow> string" where
  "trim s = trimEnd (trimStart s)"

text \<open>\<open>(name || '').trim()\<close>, for a name that is a string or missing.\<close>

definition trimmed :: "string option \<Rightarrow> string" where
  "trimmed name = trim (case name of None \<Rightarrow> [] | Some n \<Rightarrow> n)"

section \<open>Helpers of the server\<close>

text \<open>
  The helpers that take a code start with \<open>const room = rooms[code]; if (!room) return\<close>.
  The handlers call them with the code of \<open>socket.data\<close> or the code of the room they have
  just looked up, and the timer with the code it was set for: the key of a room of some
  time, for which \<open>rooms[code]\<close> is a room of the table or \<open>undefined\<close>.
\<close>

definition allCharactersAssigned :: "room \<Rightarrow> bool" where
  "allCharactersAssigned r =
     list_all (\<lambda>c. truthy_at r (cname c)) (characters (script r))"

definition broadcastPlayerList :: "string \<Rightarrow> rooms \<Rightarrow> event list" where
  "broadcastPlayerList code rs =
     (case rs code of
        None \<Rightarrow> []
      | Some r \<Rightarrow> [EvPlayerList code ((hostName r, True) # map (\<lambda>p. (pname p, False)) (players r))])"

definition broadcastAssignments :: "string \<Rightarrow> rooms \<Rightarrow> event list" where
  "broadcastAssignments code rs =
     (case rs code of
        None \<Rightarrow> []
      | Some r \<Rightarrow> [EvAssignments code (assignments r),
                   EvCastingComplete code (allCharactersAssigned r)])"

text \<open>
  \<open>sendCurrentBeat\<close> changes no room. It reads \<open>room.script.beats[room.currentBeat]\<close> and then
  \<open>beat.type\<close>: past the end of the list the beat is \<open>undefined\<close> and the read raises.
  For a beat that is not a dialogue beat it sets a timer of 4000 ms that remembers the
  code and the beat index. The active player is \<open>room.assignments[beat.character] || null\<close>:
  the owner's name, or \<open>None\<close> when there is no name to send (the value is \<open>null\<close>, \<open>''\<close>
  or \<open>undefined\<close>, or an inherited property, which is no string and is left out of the
  message).
\<close>

definition sendCurrentBeat :: "string \<Rightarrow> rooms \<Rightarrow> error + out" where
  "sendCurrentBeat code rs =
     (case rs code of
        None \<Rightarrow> Inr no_out
      | Some r \<Rightarrow>
          if state r \<noteq> Performance then Inr no_out
          else if currentBeat r < length (beats (script r)) then
            (let b = beats (script r) ! currentBeat r;
                 activePlayer =
                   (if isDialogue b
                    then (case assignments r (bcharacter b) of None \<Rightarrow> None | Some v \<Rightarrow> or_null v)
                    else None)
             in Inr \<lparr>events = [EvBeat code (currentBeat r) (length (beats (script r))) b activePlayer],
                     timers = (if \<not> isDialogue b
                               then [\<lparr>t_code = code, t_beatIndex = currentBeat r, t_delay = 4000\<rparr>]
                               else [])\<rparr>)
          else Inl TypeError)"

definition advanceBeat :: "string \<Rightarrow> rooms \<Rightarrow> error + (rooms \<times> out)" where
  "advanceBeat code rs =
     (case rs code of
        None \<Rightarrow> Inr (rs, no_out)
      | Some r \<Rightarrow>
          if state r \<noteq> Performance then Inr (rs, no_out)
          else
            (let r1 = r\<lparr>currentBeat := currentBeat r + 1\<rparr> in
             if currentBeat r1 \<ge> length (beats (script r1))
             then Inr (rs(code \<mapsto> r1\<lparr>state := Ended\<rparr>),
                       \<lparr>events = [EvPerformanceEnded code], timers = []\<rparr>)
             else (case sendCurrentBeat code (rs(code \<mapsto> r1)) of
                     Inl e \<Rightarrow> Inl e
                   | Inr ou \<Rightarrow> Inr (rs(code \<mapsto> r1), ou))))"

text \<open>The callback of the timer set by \<open>sendCurrentBeat\<close>, run when the timer fires.\<close>

definition timerFire :: "timer \<Rightarrow> rooms \<Rightarrow> error + (rooms \<times> out)" where
  "timerFire t rs =
     (case rs (t_code t) of
        None \<Rightarrow> Inr (rs, no_out)
      | Some r \<Rightarrow>
          if currentBeat r = t_beatIndex t \<and> state r = Performance
          then advanceBeat (t_code t) rs
          else Inr (rs, no_out))"

section \<open>Handlers\<close>

text \<open>
  A handler takes the connection, the payload of the request and the table of rooms, and
  returns the new table, the new \<open>socket.data\<close>, the answer passed to the callback (if
  any), the events sent and the timers set. The fields of a payload have the types the
  handler expects (a name is a string or missing, a character is a string, \<open>toPlayer\<close> is a
  string or \<open>null\<close>, \<open>scriptIndex\<close> is a number or missing).

  Every handler that reads \<open>socket.data\<close> starts with \<open>if (!code || !rooms[code]) return\<close>:
  \<open>bound\<close> gives the data and the room when the check passes. The code in \<open>socket.data\<close>
  was put there by \<open>create-room\<close> or \<open>join-room\<close> and is the key of a room of that time; it
  never names a property of \<open>Object.prototype\<close> (\<open>reachable_names_ok\<close> below), so
  \<open>rooms[code]\<close> is a room of the table or \<open>undefined\<close>.
\<close>

definition bound :: "sock \<Rightarrow> rooms \<Rightarrow> (sockdata \<times> room) option" where
  "bound s rs =
     (case sdata s of
        None \<Rightarrow> None
      | Some d \<Rightarrow>
          if sd_code d = [] then None
          else (case rs (sd_code d) of None \<Rightarrow> None | Some r \<Rightarrow> Some (d, r)))"

subsection \<open>Room codes\<close>

text \<open>
  \<open>generateCode\<close> draws four times \<open>chars[Math.floor(Math.random() * chars.length)]\<close>. The
  random source is a sequence \<open>rnd\<close> of the floored values; \<open>k\<close> is the number of draws made
  so far. An index past the end of \<open>chars\<close> would read \<open>undefined\<close>, which \<open>+=\<close> appends as
  the text \<open>undefined\<close>.
\<close>

definition chars :: string where
  "chars = ''ABCDEFGHJKLMNPQRSTUVWXYZ23456789''"

definition charAt :: "nat \<Rightarrow> string" where
  "charAt i = (if i < length chars then [chars ! i] else ''undefined'')"

definition generateCode :: "(nat \<Rightarrow> nat) \<Rightarrow> nat \<Rightarrow> string" where
  "generateCode rnd k = foldl (\<lambda>code i. code @ charAt (rnd (k + i))) [] [0..<4]"

text \<open>
  \<open>do { code = generateCode(); } while (rooms[code])\<close>: the loop has no bound, so the
  function is partial; \<open>None\<close> is a loop that never ends. A generated code names no
  property of \<open>Object.prototype\<close> (\<open>generateCode_not_inherited\<close> below), so \<open>rooms[code]\<close> is
  truthy exactly for a key of the table.
\<close>

partial_function (option) makeUniqueCode :: "(nat \<Rightarrow> nat) \<Rightarrow> nat \<Rightarrow> rooms \<Rightarrow> string option" where
  "makeUniqueCode rnd k rs =
     (let code = generateCode rnd k in
      if rs code \<noteq> None then makeUniqueCode rnd (k + 4) rs else Some code)"

subsection \<open>create-room\<close>

text \<open>
  The catalogue \<open>preparedScripts\<close> is built from files that are read when the server starts;
  it is a parameter here. \<open>preparedScripts[scriptIndex] || preparedScripts[0]\<close> is
  \<open>undefined\<close> when the catalogue is empty, and \<open>script.characters\<close> then raises.
  \<open>assignments\<close> starts as \<open>{}\<close> and gets the key of every character of the script, with
  the value \<open>null\<close>. The names of the catalogue's characters are names of roles; none of
  them is \<open>__proto__\<close>, the one name for which \<open>assignments[c.name] = null\<close> stores no key.
\<close>

definition pickScript :: "script list \<Rightarrow> int \<Rightarrow> script option" where
  "pickScript cat i =
     (if 0 \<le> i \<and> nat i < length cat then Some (cat ! nat i)
      else (case cat of [] \<Rightarrow> None | s0 # _ \<Rightarrow> Some s0))"

definition initialAssignments :: "character list \<Rightarrow> assignments" where
  "initialAssignments cs = foldl (\<lambda>m c. m(cname c \<mapsto> None)) Map.empty cs"

definition createRoom ::
  "script list \<Rightarrow> (nat \<Rightarrow> nat) \<Rightarrow> sock \<Rightarrow> string option \<Rightarrow> int option \<Rightarrow> bool \<Rightarrow> rooms
     \<Rightarrow> (error + result) option" where
  "createRoom cat rnd s name scriptIndex has_callback rs =
     (if \<not> has_callback then Some (Inr (noop s rs))
      else
        (let trimmedName = trimmed name in
         if trimmedName = [] then
           Some (Inr ((noop s rs)\<lparr>r_ack := Some (AckError ''Please enter your name.'')\<rparr>))
         else
           (let picked = pickScript cat (case scriptIndex of None \<Rightarrow> 0 | Some i \<Rightarrow> i) in
            case makeUniqueCode rnd 0 rs of
              None \<Rightarrow> None
            | Some code \<Rightarrow>
                (case picked of
                   None \<Rightarrow> Some (Inl TypeError)
                 | Some sc \<Rightarrow>
                     Some (Inr \<lparr>r_rooms = rs(code \<mapsto>
                                   \<lparr>hostId = sid s, hostName = trimmedName, players = [],
                                    script = sc,
                                    assignments = initialAssignments (characters sc),
                                    state = Lobby, currentBeat = 0, inheriting = True\<rparr>),
                                r_data = Some \<lparr>sd_code = code, sd_role = Host, sd_name = trimmedName\<rparr>,
                                r_ack = Some (AckCreated code (title sc) (characters sc)),
                                r_events = [], r_timers = []\<rparr>)))))"

subsection \<open>join-room\<close>

text \<open>
  \<open>rooms\<close> is created as \<open>{}\<close> too. For a code that is no key of the table but names a
  property of \<open>Object.prototype\<close>, \<open>rooms[code]\<close> is that property: it is truthy and has
  no \<open>state\<close> and no \<open>players\<close>, so the handler passes the first two checks, and after the
  check of the name \<open>room.players.push\<close> raises.
\<close>

definition joinRoom :: "sock \<Rightarrow> string \<Rightarrow> string option \<Rightarrow> rooms \<Rightarrow> error + result" where
  "joinRoom s code name rs =
     (case rs code of
        None \<Rightarrow>
          if inherited code then
            (if trimmed name = [] then
               Inr ((noop s rs)\<lparr>r_ack := Some (AckError ''Please enter your name.'')\<rparr>)
             else Inl TypeError)
          else
            Inr ((noop s rs)\<lparr>r_ack := Some (AckError ''Room not found. Check your code and try again.'')\<rparr>)
      | Some r \<Rightarrow>
          if state r = Performance then
            Inr ((noop s rs)\<lparr>r_ack := Some (AckError ''Performance already started.'')\<rparr>)
          else
            (let trimmedName = trimmed name in
             if trimmedName = [] then
               Inr ((noop s rs)\<lparr>r_ack := Some (AckError ''Please enter your name.'')\<rparr>)
             else
               (let rs' = rs(code \<mapsto> r\<lparr>players := players r @ [\<lparr>pid = sid s, pname = trimmedName\<rparr>]\<rparr>)
                in Inr \<lparr>r_rooms = rs',
                        r_data = Some \<lparr>sd_code = code, sd_role = Player, sd_name = trimmedName\<rparr>,
                        r_ack = Some (AckJoined trimmedName (title (script r)) (characters (script r))
                                        (assignments r)),
                        r_events = broadcastPlayerList code rs' @ broadcastAssignments code rs',
                        r_timers = []\<rparr>)))"

subsection \<open>claim-character\<close>

definition claimCharacter :: "sock \<Rightarrow> string \<Rightarrow> rooms \<Rightarrow> result" where
  "claimCharacter s ch rs =
     (case bound s rs of
        None \<Rightarrow> noop s rs
      | Some (d, r) \<Rightarrow>
          if state r \<noteq> Lobby then noop s rs
          else if \<not> hasProperty r ch then noop s rs
          else
            (let r' = (if assignments r ch = Some (Some (sd_name d)) then assign r ch None
                       else if \<not> truthy_at r ch then assign r ch (Some (sd_name d))
                       else r);
                 rs' = rs(sd_code d \<mapsto> r')
             in (noop s rs)\<lparr>r_rooms := rs',
                             r_events := broadcastAssignments (sd_code d) rs'\<rparr>))"

subsection \<open>force-assign\<close>

text \<open>\<open>toPlayer\<close> is a name or \<open>null\<close> (\<open>None\<close>).\<close>

definition forceAssign :: "sock \<Rightarrow> string \<Rightarrow> string option \<Rightarrow> rooms \<Rightarrow> error + result" where
  "forceAssign s ch toPlayer rs =
     (case bound s rs of
        None \<Rightarrow> Inr (noop s rs)
      | Some (d, r) \<Rightarrow>
          if sd_role d \<noteq> Host then Inr (noop s rs)
          else if \<not> hasProperty r ch then Inr (noop s rs)
          else if toPlayer \<noteq> None \<and>
                  \<not> (toPlayer = Some (hostName r) \<or> list_ex (\<lambda>p. Some (pname p) = toPlayer) (players r))
          then Inr (noop s rs)
          else
            (let r' = assign r ch (or_null toPlayer);
                 rs' = rs(sd_code d \<mapsto> r')
             in case (if state r' = Performance then sendCurrentBeat (sd_code d) rs' else Inr no_out) of
                  Inl e \<Rightarrow> Inl e
                | Inr ou \<Rightarrow>
                    Inr \<lparr>r_rooms = rs', r_data = sdata s, r_ack = None,
                         r_events = broadcastAssignments (sd_code d) rs' @ events ou,
                         r_timers = timers ou\<rparr>))"

subsection \<open>boot-player\<close>

text \<open>
  \<open>Object.keys(room.assignments).forEach(...)\<close> sets to \<open>null\<close> every key whose value is the
  given name.
\<close>

definition release :: "assignments \<Rightarrow> string \<Rightarrow> assignments" where
  "release m n = (\<lambda>c. if m c = Some (Some n) then Some None else m c)"

text \<open>The first step of the handler: during a performance, hand the active beat to the host.\<close>

definition handToHost :: "room \<Rightarrow> string \<Rightarrow> error + room" where
  "handToHost r playerName =
     (if state r = Performance then
        (if currentBeat r < length (beats (script r)) then
           (let b = beats (script r) ! currentBeat r in
            if isDialogue b \<and> assignments r (bcharacter b) = Some (Some playerName)
            then Inr (r\<lparr>assignments := (assignments r)(bcharacter b \<mapsto> Some (hostName r))\<rparr>)
            else Inr r)
         else Inl TypeError)
      else Inr r)"

text \<open>\<open>live i\<close> says whether \<open>io.sockets.sockets.get(i)\<close> finds a connected socket.\<close>

definition bootPlayer :: "(nat \<Rightarrow> bool) \<Rightarrow> sock \<Rightarrow> string \<Rightarrow> rooms \<Rightarrow> error + result" where
  "bootPlayer live s playerName rs =
     (case bound s rs of
        None \<Rightarrow> Inr (noop s rs)
      | Some (d, r) \<Rightarrow>
          if sd_role d \<noteq> Host then Inr (noop s rs)
          else
            (case find (\<lambda>p. pname p = playerName) (players r) of
               None \<Rightarrow> Inr (noop s rs)
             | Some target \<Rightarrow>
                 (case handToHost r playerName of
                    Inl e \<Rightarrow> Inl e
                  | Inr r1 \<Rightarrow>
                      (let r2 = r1\<lparr>assignments := release (assignments r1) playerName\<rparr>;
                           r3 = r2\<lparr>players := filter (\<lambda>p. pname p \<noteq> playerName) (players r2)\<rparr>;
                           rs' = rs(sd_code d \<mapsto> r3);
                           kicked = (if live (pid target)
                                     then [EvKicked (pid target) ''You were removed by the host.'']
                                     else [])
                       in case (if state r3 = Performance then sendCurrentBeat (sd_code d) rs'
                                else Inr no_out) of
                            Inl e \<Rightarrow> Inl e
                          | Inr ou \<Rightarrow>
                              Inr \<lparr>r_rooms = rs', r_data = sdata s, r_ack = None,
                                   r_events = kicked @ broadcastPlayerList (sd_code d) rs'
                                              @ broadcastAssignments (sd_code d) rs' @ events ou,
                                   r_timers = timers ou\<rparr>))))"

subsection \<open>start-performance\<close>

definition startPerformance :: "sock \<Rightarrow> rooms \<Rightarrow> error + result" where
  "startPerformance s rs =
     (case bound s rs of
        None \<Rightarrow> Inr (noop s rs)
      | Some (d, r) \<Rightarrow>
          if sd_role d \<noteq> Host then Inr (noop s rs)
          else if \<not> allCharactersAssigned r then Inr (noop s rs)
          else
            (let rs' = rs(sd_code d \<mapsto> r\<lparr>state := Performance, currentBeat := 0\<rparr>)
             in case sendCurrentBeat (sd_code d) rs' of
                  Inl e \<Rightarrow> Inl e
                | Inr ou \<Rightarrow>
                    Inr \<lparr>r_rooms = rs', r_data = sdata s, r_ack = None,
                         r_events = EvPerformanceStarted (sd_code d) (title (script r)) # events ou,
                         r_timers = timers ou\<rparr>))"

subsection \<open>beat-done\<close>

definition beatDone :: "sock \<Rightarrow> rooms \<Rightarrow> error + result" where
  "beatDone s rs =
     (case bound s rs of
        None \<Rightarrow> Inr (noop s rs)
      | Some (d, r) \<Rightarrow>
          if state r \<noteq> Performance then Inr (noop s rs)
          else if currentBeat r < length (beats (script r)) then
            (let b = beats (script r) ! currentBeat r in
             if \<not> isDialogue b then Inr (noop s rs)
             else if Some (Some (sd_name d)) \<noteq> assignments r (bcharacter b) \<and> sd_role d \<noteq> Host
             then Inr (noop s rs)
             else (case advanceBeat (sd_code d) rs of
                     Inl e \<Rightarrow> Inl e
                   | Inr (rs', ou) \<Rightarrow>
                       Inr \<lparr>r_rooms = rs', r_data = sdata s, r_ack = None,
                            r_events = events ou, r_timers = timers ou\<rparr>))
          else Inl TypeError)"

subsection \<open>disconnect\<close>

definition disconnect :: "sock \<Rightarrow> rooms \<Rightarrow> result" where
  "disconnect s rs =
     (case bound s rs of
        None \<Rightarrow> noop s rs
      | Some (d, r) \<Rightarrow>
          if sd_role d = Host then
            (noop s rs)\<lparr>r_rooms := rs(sd_code d := None), r_events := [EvHostLeft (sd_code d)]\<rparr>
          else
            (let r1 = r\<lparr>players := filter (\<lambda>p. pid p \<noteq> sid s) (players r)\<rparr>;
                 r2 = r1\<lparr>assignments := release (assignments r1) (sd_name d)\<rparr>;
                 rs' = rs(sd_code d \<mapsto> r2)
             in (noop s rs)\<lparr>r_rooms := rs',
                             r_events := broadcastPlayerList (sd_code d) rs'
                                         @ broadcastAssignments (sd_code d) rs'\<rparr>))"

subsection \<open>All requests of a connection\<close>

datatype request =
    CreateRoom "string option" "int option" bool
  | JoinRoom string "string option"
  | ClaimCharacter string
  | ForceAssign string "string option"
  | BootPlayer string
  | StartPerformance
  | BeatDone
  | Disconnect
  | Ping

text \<open>\<open>None\<close> is a handler that never returns (only \<open>create-room\<close> has a loop).\<close>

fun handle ::
  "script list \<Rightarrow> (nat \<Rightarrow> nat) \<Rightarrow> (nat \<Rightarrow> bool) \<Rightarrow> sock \<Rightarrow> request \<Rightarrow> rooms
     \<Rightarrow> (error + result) option" where
  "handle cat rnd live s (CreateRoom name scriptIndex cb) rs = createRoom cat rnd s name scriptIndex cb rs"
| "handle cat rnd live s (JoinRoom code name) rs = Some (joinRoom s code name rs)"
| "handle cat rnd live s (ClaimCharacter ch) rs = Some (Inr (claimCharacter s ch rs))"
| "handle cat rnd live s (ForceAssign ch toPlayer) rs = Some (forceAssign s ch toPlayer rs)"
| "handle cat rnd live s (BootPlayer playerName) rs = Some (bootPlayer live s playerName rs)"
| "handle cat rnd live s StartPerformance rs = Some (startPerformance s rs)"
| "handle cat rnd live s BeatDone rs = Some (beatDone s rs)"
| "handle cat rnd live s Disconnect rs = Some (Inr (disconnect s rs))"
| "handle cat rnd live s Ping rs = Some (Inr ((noop s rs)\<lparr>r_events := [EvPong (sid s)]\<rparr>))"

section \<open>Observations\<close>

text \<open>
  The room with a given code after a handler has run, and the table, the answer and the
  \<open>socket.data\<close> after it; nothing if the handler raised.
\<close>

definition room_after :: "error + result \<Rightarrow> string \<Rightarrow> room option" where
  "room_after x code = (case x of Inl e \<Rightarrow> None | Inr res \<Rightarrow> r_rooms res code)"

definition currentBeat_after :: "error + result \<Rightarrow> string \<Rightarrow> nat option" where
  "currentBeat_after x code = map_option currentBeat (room_after x code)"

definition state_after :: "error + result \<Rightarrow> string \<Rightarrow> room_state option" where
  "state_after x code = map_option state (room_after x code)"

definition owner_after :: "error + result \<Rightarrow> string \<Rightarrow> string \<Rightarrow> string option option" where
  "owner_after x code ch = (case room_after x code of None \<Rightarrow> None | Some r \<Rightarrow> assignments r ch)"

definition playerNames_after :: "error + result \<Rightarrow> string \<Rightarrow> string list option" where
  "playerNames_after x code = (case room_after x code of None \<Rightarrow> None | Some r \<Rightarrow> Some (map pname (players r)))"

definition rooms_after :: "error + result \<Rightarrow> rooms option" where
  "rooms_after x = (case x of Inl e \<Rightarrow> None | Inr res \<Rightarrow> Some (r_rooms res))"

definition ack_after :: "error + result \<Rightarrow> ack option" where
  "ack_after x = (case x of Inl e \<Rightarrow> None | Inr res \<Rightarrow> r_ack res)"

definition data_after :: "error + result \<Rightarrow> sockdata option" where
  "data_after x = (case x of Inl e \<Rightarrow> None | Inr res \<Rightarrow> r_data res)"

definition events_of :: "error + result \<Rightarrow> event list" where
  "events_of x = (case x of Inl e \<Rightarrow> [] | Inr res \<Rightarrow> r_events res)"

fun isBeatFor :: "string \<Rightarrow> event \<Rightarrow> bool" where
  "isBeatFor code (EvBeat c i n b a) = (c = code)"
| "isBeatFor code ev = False"

definition beatsFor :: "string \<Rightarrow> event list \<Rightarrow> event list" where
  "beatsFor code evs = filter (isBeatFor code) evs"

fun isAckError :: "ack option \<Rightarrow> bool" where
  "isAckError (Some (AckError m)) = True"
| "isAckError a = False"


definition timersFor :: "string \<Rightarrow> timer list \<Rightarrow> timer list" where
  "timersFor code ts = filter (\<lambda>t. t_code t = code) ts"

section \<open>A small room to run the handlers on\<close>

text \<open>
  A script with three characters and three beats: a stage direction, a line of Lead and a
  line of Sidekick. The room \<open>ABCD\<close> has two players, Ben (who plays Lead and Extra) and
  Cal (who plays Sidekick); the host's name is a parameter.
\<close>

definition ex_script :: script where
  "ex_script =
     \<lparr>title = ''Demo'',
      characters = [\<lparr>cname = ''Lead'', lineCount = 1\<rparr>,
                    \<lparr>cname = ''Sidekick'', lineCount = 1\<rparr>,
                    \<lparr>cname = ''Extra'', lineCount = 0\<rparr>],
      beats = [\<lparr>btype = ''direction'', bcharacter = [], btext = ''Curtain rises.''\<rparr>,
               \<lparr>btype = ''dialogue'', bcharacter = ''Lead'', btext = ''Hello.''\<rparr>,
               \<lparr>btype = ''dialogue'', bcharacter = ''Sidekick'', btext = ''Goodbye.''\<rparr>]\<rparr>"

definition ex_cast :: assignments where
  "ex_cast = [''Lead'' \<mapsto> Some ''Ben'', ''Sidekick'' \<mapsto> Some ''Cal'', ''Extra'' \<mapsto> Some ''Ben'']"

definition ex_room :: "string \<Rightarrow> assignments \<Rightarrow> room_state \<Rightarrow> nat \<Rightarrow> room" where
  "ex_room hn a st cb =
     \<lparr>hostId = 1, hostName = hn,
      players = [\<lparr>pid = 2, pname = ''Ben''\<rparr>, \<lparr>pid = 3, pname = ''Cal''\<rparr>],
      script = ex_script, assignments = a, state = st, currentBeat = cb, inheriting = True\<rparr>"

definition ex_rooms :: "string \<Rightarrow> assignments \<Rightarrow> room_state \<Rightarrow> nat \<Rightarrow> rooms" where
  "ex_rooms hn a st cb = [''ABCD'' \<mapsto> ex_room hn a st cb]"

definition ex_sock :: "nat \<Rightarrow> role \<Rightarrow> string \<Rightarrow> sock" where
  "ex_sock i ro n = \<lparr>sid = i, sdata = Some \<lparr>sd_code = ''ABCD'', sd_role = ro, sd_name = n\<rparr>\<rparr>"

definition ex_new :: sock where
  "ex_new = \<lparr>sid = 4, sdata = None\<rparr>"

definition ex_partial :: assignments where
  "ex_partial = [''Lead'' \<mapsto> Some ''Ben'', ''Sidekick'' \<mapsto> Some ''Cal'', ''Extra'' \<mapsto> None]"

definition ex_unowned :: assignments where
  "ex_unowned = [''Lead'' \<mapsto> None, ''Sidekick'' \<mapsto> Some ''Cal'', ''Extra'' \<mapsto> Some ''Ben'']"



section \<open>The server as a transition system\<close>

text \<open>
  The state of the server is the table of rooms and the \<open>socket.data\<close> of every connection.
  It starts empty. A step is a request of one connection whose handler returns, or a
  timer that fires. After \<open>disconnect\<close> the connection is gone; a connection with that
  number seen later is a new one. Any timer may fire at any time: the timers that were
  really set are among them.
\<close>

record world =
  w_rooms :: rooms
  w_socks :: "nat \<Rightarrow> sockdata option"

inductive reachable :: "script list \<Rightarrow> world \<Rightarrow> bool" for cat :: "script list" where
  start: "reachable cat \<lparr>w_rooms = Map.empty, w_socks = (\<lambda>i. None)\<rparr>"
| request:
    "reachable cat w \<Longrightarrow> \<forall>k. rnd k < length chars \<Longrightarrow>
     handle cat rnd live \<lparr>sid = i, sdata = w_socks w i\<rparr> req (w_rooms w) = Some (Inr res) \<Longrightarrow>
     reachable cat \<lparr>w_rooms = r_rooms res,
                    w_socks = (w_socks w)(i := (if req = Disconnect then None else r_data res))\<rparr>"
| timer:
    "reachable cat w \<Longrightarrow> timerFire t (w_rooms w) = Inr (rs', ou) \<Longrightarrow>
     reachable cat \<lparr>w_rooms = rs', w_socks = w_socks w\<rparr>"

text \<open>The invariant on the beat index, for one room and for the table.\<close>

definition beat_in_range :: "room \<Rightarrow> bool" where
  "beat_in_range r = (state r = Performance \<longrightarrow> currentBeat r < length (beats (script r)))"

definition rooms_ok :: "rooms \<Rightarrow> bool" where
  "rooms_ok rs = (\<forall>code r. rs code = Some r \<longrightarrow> beat_in_range r)"

text \<open>A room that has ended, and a room that has ended or has been closed.\<close>

definition ended_at :: "rooms \<Rightarrow> string \<Rightarrow> bool" where
  "ended_at rs code = (case rs code of None \<Rightarrow> False | Some r \<Rightarrow> state r = Ended)"

definition ended_or_gone :: "rooms \<Rightarrow> string \<Rightarrow> bool" where
  "ended_or_gone rs code = (case rs code of None \<Rightarrow> True | Some r \<Rightarrow> state r = Ended)"

text \<open>
  A catalogue of one script with no character and one stage direction, and the server
  after Amy has created a room for it and (in state \<open>performance\<close>) started the performance.
\<close>

definition ex_solo :: script where
  "ex_solo = \<lparr>title = ''Solo'', characters = [],
               beats = [\<lparr>btype = ''direction'', bcharacter = [], btext = ''Silence.''\<rparr>]\<rparr>"

definition ex_solo_room :: "room_state \<Rightarrow> room" where
  "ex_solo_room st =
     \<lparr>hostId = 1, hostName = ''Amy'', players = [], script = ex_solo,
      assignments = Map.empty, state = st, currentBeat = 0, inheriting = True\<rparr>"

definition ex_world :: "room_state \<Rightarrow> world" where
  "ex_world st =
     \<lparr>w_rooms = [''AAAA'' \<mapsto> ex_solo_room st],
      w_socks = (\<lambda>i. None)(1 := Some \<lparr>sd_code = ''AAAA'', sd_role = Host, sd_name = ''Amy''\<rparr>)\<rparr>"

text \<open>
  What the handlers keep true about names: the name of a host, of a player and of an owner
  is never empty (names are trimmed and checked when a room is created or joined), every
  character of the script is a key of \<open>assignments\<close>, and the code of a room, in the table
  and in \<open>socket.data\<close>, is not empty and names no property of \<open>Object.prototype\<close>.
\<close>

definition room_wf :: "room \<Rightarrow> bool" where
  "room_wf r =
     (hostName r \<noteq> [] \<and> (\<forall>p \<in> set (players r). pname p \<noteq> [])
      \<and> (\<forall>ch. assignments r ch \<noteq> Some (Some []))
      \<and> cname ` set (characters (script r)) \<subseteq> dom (assignments r))"

definition code_ok :: "string \<Rightarrow> bool" where
  "code_ok code = (code \<noteq> [] \<and> \<not> inherited code)"

definition rooms_wf :: "rooms \<Rightarrow> bool" where
  "rooms_wf rs = (\<forall>code r. rs code = Some r \<longrightarrow> code_ok code \<and> room_wf r)"

definition data_ok :: "sockdata option \<Rightarrow> bool" where
  "data_ok x = (case x of None \<Rightarrow> True | Some d \<Rightarrow> sd_name d \<noteq> [] \<and> code_ok (sd_code d))"

definition names_ok :: "world \<Rightarrow> bool" where
  "names_ok w = ((\<forall>i. data_ok (w_socks w i)) \<and> rooms_wf (w_rooms w))"

section \<open>Properties\<close>

text \<open>The definitions that a run on the small room unfolds.\<close>

lemmas ex_defs =
  ex_script_def ex_cast_def ex_room_def ex_rooms_def ex_sock_def room_after_def events_of_def
  noop_def no_out_def bound_def isDialogue_def or_null_def

subsection \<open>The first check of a handler\<close>

lemma bound_eq:
  "sdata s = Some d \<Longrightarrow> sd_code d \<noteq> [] \<Longrightarrow> rs (sd_code d) = Some r \<Longrightarrow> bound s rs = Some (d, r)"
  by (simp add: bound_def)

lemma boundD: "bound s rs = Some (d, r) \<Longrightarrow> rs (sd_code d) = Some r \<and> sdata s = Some d \<and> sd_code d \<noteq> []"
  by (auto simp: bound_def split: option.splits if_splits)

lemma bound_cases:
  obtains (unbound) "bound s rs = None"
  | (bound) d r where "bound s rs = Some (d, r)" and "rs (sd_code d) = Some r"
      and "sdata s = Some d" and "sd_code d \<noteq> []"
  by (cases "bound s rs") (auto dest: boundD)

lemma bound_upd:
  "bound s rs = Some (d, r) \<Longrightarrow> bound s (rs(sd_code d \<mapsto> r')) = Some (d, r')"
  by (auto simp: bound_def split: option.splits if_splits)

subsection \<open>Trimming a name\<close>

text \<open>
  White space is removed at both ends and kept inside; a name of white space only, such as
  a no-break space, a space and an ideographic space, is empty after trimming.
\<close>

lemma trimmed_inner: "trimmed (Some ''  Dee Dee  '') = ''Dee Dee''"
  by (simp add: trimmed_def trim_def trimStart.simps trimEnd.simps leading_def trailing_def
      white_space_def)

lemma trimmed_white_space:
  "trimmed (Some [CHR 0xC2, CHR 0xA0, CHR 0x20, CHR 0xE3, CHR 0x80, CHR 0x80]) = []"
  by (simp add: trimmed_def trim_def trimStart.simps trimEnd.simps leading_def trailing_def
      white_space_def)

subsection \<open>Writing to \<open>assignments\<close>\<close>

text \<open>A write to \<open>assignments\<close> changes nothing else of the room.\<close>

lemma assign_same [simp]:
  "state (assign r k v) = state r"
  "currentBeat (assign r k v) = currentBeat r"
  "script (assign r k v) = script r"
  "players (assign r k v) = players r"
  "hostName (assign r k v) = hostName r"
  "hostId (assign r k v) = hostId r"
  by (simp_all add: assign_def)

lemma assign_own:
  "assignments r k \<noteq> None \<Longrightarrow> assign r k v = r\<lparr>assignments := (assignments r)(k \<mapsto> v)\<rparr>"
  by (auto simp: assign_def)

subsection \<open>Creating a room\<close>

text \<open>
  The loop of \<open>makeUniqueCode\<close>: a code it returns is one of the generated codes and is not
  a key of the table; and it returns as soon as the random source offers a code that is
  free.
\<close>

lemma makeUniqueCode_sound:
  assumes "makeUniqueCode rnd k rs = Some c"
  shows "rs c = None \<and> (\<exists>j. c = generateCode rnd (k + 4 * j))"
  using assms
proof (induction rnd k rs c rule: makeUniqueCode.raw_induct[rotated, consumes 1, case_names step])
  case (step f rnd k rs c)
  show ?case
  proof (cases "rs (generateCode rnd k) = None")
    case True
    with step(2) have "c = generateCode rnd k" by (simp add: Let_def)
    with True have "rs c = None \<and> c = generateCode rnd (k + 4 * 0)" by simp
    then show ?thesis by blast
  next
    case False
    with step(2) have "f rnd (k + 4) rs = Some c" by (simp add: Let_def)
    from step(1)[OF this] obtain j where "rs c = None" and "c = generateCode rnd (k + 4 + 4 * j)"
      by blast
    then have "rs c = None \<and> c = generateCode rnd (k + 4 * Suc j)" by (simp add: add.assoc)
    then show ?thesis by blast
  qed
qed


text \<open>The shape of a generated code, for draws that are indices into \<open>chars\<close>.\<close>

lemma upt_0_4: "[0..<4] = [0, 1, 2, 3]"
  by (simp add: upt_rec)

lemma generateCode_unfold:
  "generateCode rnd k =
     charAt (rnd k) @ charAt (rnd (k + 1)) @ charAt (rnd (k + 2)) @ charAt (rnd (k + 3))"
  by (simp add: generateCode_def upt_0_4)


lemma charAt_nonempty: "charAt i \<noteq> []"
  by (simp add: charAt_def)

lemma generateCode_nonempty: "generateCode rnd k \<noteq> []"
  by (simp add: generateCode_unfold charAt_nonempty)



text \<open>
  A generated code starts with a character of \<open>chars\<close> or with the \<open>u\<close> of \<open>undefined\<close>;
  no name of a property of \<open>Object.prototype\<close> does.
\<close>

lemma generateCode_not_inherited: "\<not> inherited (generateCode rnd k)"
proof
  assume "inherited (generateCode rnd k)"
  then have "hd (generateCode rnd k) \<in> set ''c_hiptv''"
    by (auto simp: inherited_def)
  moreover have "hd (generateCode rnd k) = hd (charAt (rnd k))"
    by (simp add: generateCode_unfold charAt_nonempty)
  moreover have "hd (charAt (rnd k)) \<in> set chars \<union> {CHR ''u''}"
    by (simp add: charAt_def)
  ultimately show False
    by (auto simp: chars_def)
qed

lemma foldl_unassigned:
  "foldl (\<lambda>m c. m(cname c \<mapsto> None)) m cs ch = (if ch \<in> cname ` set cs then Some None else m ch)"
  by (induction cs arbitrary: m) auto

lemma initialAssignments_apply:
  "initialAssignments cs ch = (if ch \<in> cname ` set cs then Some None else None)"
  by (simp add: initialAssignments_def foldl_unassigned)




subsection \<open>Joining a room\<close>

text \<open>
  A join that is answered with an error has changed nothing, and a join during the
  performance is answered with an error.
\<close>

lemma joinRoom_error_unchanged:
  "joinRoom s code name rs = Inr res \<Longrightarrow> isAckError (r_ack res) \<Longrightarrow>
     res = (noop s rs)\<lparr>r_ack := r_ack res\<rparr>"
  by (auto simp: joinRoom_def Let_def noop_def split: option.splits if_splits)

lemma joinRoom_performance:
  "rs code = Some r \<Longrightarrow> state r = Performance \<Longrightarrow>
     joinRoom s code name rs = Inr ((noop s rs)\<lparr>r_ack := Some (AckError ''Performance already started.'')\<rparr>)"
  by (simp add: joinRoom_def)

text \<open>
  A code that is no key of the table but the name of a property of \<open>Object.prototype\<close>:
  the join is not answered with \<open>Room not found\<close>; with a name it raises.
\<close>

lemma joinRoom_inherited:
  "rs code = None \<Longrightarrow> inherited code \<Longrightarrow> trimmed name \<noteq> [] \<Longrightarrow> joinRoom s code name rs = Inl TypeError"
  by (simp add: joinRoom_def)

lemma joinRoom_no_room:
  "joinRoom ex_new ''toString'' (Some ''Zed'') (ex_rooms ''Amy'' ex_cast Lobby 0) = Inl TypeError
   \<and> joinRoom ex_new ''toString'' (Some '' '') (ex_rooms ''Amy'' ex_cast Lobby 0)
       = Inr ((noop ex_new (ex_rooms ''Amy'' ex_cast Lobby 0))
                \<lparr>r_ack := Some (AckError ''Please enter your name.'')\<rparr>)
   \<and> joinRoom ex_new ''WXYZ'' (Some ''Zed'') (ex_rooms ''Amy'' ex_cast Lobby 0)
       = Inr ((noop ex_new (ex_rooms ''Amy'' ex_cast Lobby 0))
                \<lparr>r_ack := Some (AckError ''Room not found. Check your code and try again.'')\<rparr>)"
  by (simp add: joinRoom_def inherited_def trimmed_def trim_def trimStart.simps trimEnd.simps
      leading_def trailing_def white_space_def ex_rooms_def)

text \<open>
  C3. The specification has \<open>join-room\<close> fail once the performance has started, in state
  \<open>performance\<close> and in state \<open>ended\<close>. The handler refuses with \<open>Performance already started.\<close>
  only when the state is \<open>performance\<close>; in a room that has ended the join goes through.
  Here the room has ended after its third beat, and Zed joins it: the answer is no error,
  Zed is in the player list, and the connection is bound to the room as a player.
\<close>

theorem C3_join_after_the_end:
  "state (ex_room ''Amy'' ex_cast Ended 3) = Ended
   \<and> ack_after (joinRoom ex_new ''ABCD'' (Some ''Zed'') (ex_rooms ''Amy'' ex_cast Ended 3))
       = Some (AckJoined ''Zed'' ''Demo'' (characters ex_script) ex_cast)
   \<and> \<not> isAckError (ack_after (joinRoom ex_new ''ABCD'' (Some ''Zed'') (ex_rooms ''Amy'' ex_cast Ended 3)))
   \<and> playerNames_after (joinRoom ex_new ''ABCD'' (Some ''Zed'') (ex_rooms ''Amy'' ex_cast Ended 3)) ''ABCD''
       = Some [''Ben'', ''Cal'', ''Zed'']
   \<and> data_after (joinRoom ex_new ''ABCD'' (Some ''Zed'') (ex_rooms ''Amy'' ex_cast Ended 3))
       = Some \<lparr>sd_code = ''ABCD'', sd_role = Player, sd_name = ''Zed''\<rparr>"
  by (simp add: joinRoom_def trimmed_def trim_def trimStart.simps trimEnd.simps leading_def
      trailing_def white_space_def playerNames_after_def ack_after_def data_after_def ex_new_def
      Let_def ex_defs)

subsection \<open>Claiming a character\<close>

lemma claim_on:
  assumes "bound s rs = Some (d, r)" and "state r = Lobby" and "assignments r ch = Some None"
  shows "r_rooms (claimCharacter s ch rs) = rs(sd_code d \<mapsto> r\<lparr>assignments := (assignments r)(ch \<mapsto> Some (sd_name d))\<rparr>)"
  using assms by (simp add: claimCharacter_def hasProperty_def truthy_at_def assign_def Let_def noop_def)

lemma claim_off:
  assumes "bound s rs = Some (d, r)" and "state r = Lobby" and "assignments r ch = Some (Some (sd_name d))"
  shows "r_rooms (claimCharacter s ch rs) = rs(sd_code d \<mapsto> r\<lparr>assignments := (assignments r)(ch \<mapsto> None)\<rparr>)"
  using assms by (simp add: claimCharacter_def hasProperty_def assign_def Let_def noop_def)

lemma claim_other:
  assumes "bound s rs = Some (d, r)" and "assignments r ch = Some (Some a)" and "a \<noteq> sd_name d" and "a \<noteq> []"
  shows "r_rooms (claimCharacter s ch rs) = rs"
proof -
  have "rs (sd_code d) = Some r"
    using assms(1) by (auto simp: bound_def split: option.splits if_splits)
  then have "rs(sd_code d \<mapsto> r) = rs" by (rule map_upd_triv)
  then show ?thesis
    using assms by (simp add: claimCharacter_def hasProperty_def truthy_at_def Let_def noop_def)
qed

lemma claim_absent:
  assumes "bound s rs = Some (d, r)" and "assignments r ch = None"
  shows "claimCharacter s ch rs =
           (if state r = Lobby \<and> inheriting r \<and> inherited ch
            then (noop s rs)\<lparr>r_events := broadcastAssignments (sd_code d) rs\<rparr>
            else noop s rs)"
proof -
  have "rs (sd_code d) = Some r"
    using assms(1) by (auto simp: bound_def split: option.splits if_splits)
  then have "rs(sd_code d \<mapsto> r) = rs" by (rule map_upd_triv)
  then show ?thesis
    using assms by (simp add: claimCharacter_def hasProperty_def truthy_at_def Let_def noop_def)
qed

lemma claim_twice:
  assumes b: "bound s rs = Some (d, r)" and "state r = Lobby" and "assignments r ch = Some None"
  shows "r_rooms (claimCharacter s ch (r_rooms (claimCharacter s ch rs))) = rs"
proof -
  let ?r1 = "r\<lparr>assignments := (assignments r)(ch \<mapsto> Some (sd_name d))\<rparr>"
  have 1: "r_rooms (claimCharacter s ch rs) = rs(sd_code d \<mapsto> ?r1)"
    using assms by (rule claim_on)
  have b1: "bound s (rs(sd_code d \<mapsto> ?r1)) = Some (d, ?r1)"
    using b by (rule bound_upd)
  have 2: "r_rooms (claimCharacter s ch (rs(sd_code d \<mapsto> ?r1)))
           = (rs(sd_code d \<mapsto> ?r1))(sd_code d \<mapsto> ?r1\<lparr>assignments := (assignments ?r1)(ch \<mapsto> None)\<rparr>)"
    using b1 assms(2) by (intro claim_off) simp_all
  have "(assignments r)(ch \<mapsto> None) = assignments r"
    using assms(3) by (rule map_upd_triv)
  then have 3: "?r1\<lparr>assignments := (assignments ?r1)(ch \<mapsto> None)\<rparr> = r" by simp
  have "rs (sd_code d) = Some r"
    using b by (auto simp: bound_def split: option.splits if_splits)
  then have "rs(sd_code d \<mapsto> r) = rs" by (rule map_upd_triv)
  then show ?thesis unfolding 1 2 3 by simp
qed

text \<open>
  C4. For a caller bound to a room: in the lobby, a character the caller's name owns becomes
  unassigned, and an unassigned character becomes the caller's; a character owned by
  another name is left as it is, in every state. Outside the lobby, and for a character
  that is not \<open>in\<close> \<open>assignments\<close>, the handler does nothing at all. A character that is no
  key of \<open>assignments\<close> changes nothing in any case: either it is not \<open>in\<close> \<open>assignments\<close>, or
  its name is the name of a property of \<open>Object.prototype\<close>, which is \<open>in\<close> every object;
  then the handler, in the lobby, stores nothing and sends the assignments as they are
  (as it does for a character owned by another name). Four claims in a row on an
  unassigned character (claim, unclaim, claim, unclaim) give back the room as it was, with
  the character unassigned. (An owner is a display name, and display names are trimmed and
  not empty; \<open>names_ok\<close> below holds in every room the server can reach.)
\<close>

theorem C4_claimCharacter_toggle:
  assumes "sdata s = Some d" and "sd_code d \<noteq> []" and "rs (sd_code d) = Some r"
  shows "(state r = Lobby \<and> assignments r ch = Some (Some (sd_name d)) \<longrightarrow>
            r_rooms (claimCharacter s ch rs)
              = rs(sd_code d \<mapsto> r\<lparr>assignments := (assignments r)(ch \<mapsto> None)\<rparr>))
       \<and> (state r = Lobby \<and> assignments r ch = Some None \<longrightarrow>
            r_rooms (claimCharacter s ch rs)
              = rs(sd_code d \<mapsto> r\<lparr>assignments := (assignments r)(ch \<mapsto> Some (sd_name d))\<rparr>))
       \<and> (assignments r ch = Some (Some a) \<and> a \<noteq> sd_name d \<and> a \<noteq> [] \<longrightarrow>
            r_rooms (claimCharacter s ch rs) = rs)
       \<and> (state r \<noteq> Lobby \<or> \<not> hasProperty r ch \<longrightarrow> claimCharacter s ch rs = noop s rs)
       \<and> (assignments r ch = None \<longrightarrow>
            r_rooms (claimCharacter s ch rs) = rs
            \<and> claimCharacter s ch rs =
                (if state r = Lobby \<and> inheriting r \<and> inherited ch
                 then (noop s rs)\<lparr>r_events := broadcastAssignments (sd_code d) rs\<rparr>
                 else noop s rs))
       \<and> (state r = Lobby \<and> assignments r ch = Some None \<longrightarrow>
            r_rooms (claimCharacter s ch (r_rooms (claimCharacter s ch
              (r_rooms (claimCharacter s ch (r_rooms (claimCharacter s ch rs))))))) = rs)"
proof -
  have b: "bound s rs = Some (d, r)"
    using assms by (rule bound_eq)
  have off: "state r = Lobby \<and> assignments r ch = Some (Some (sd_name d)) \<longrightarrow>
            r_rooms (claimCharacter s ch rs)
              = rs(sd_code d \<mapsto> r\<lparr>assignments := (assignments r)(ch \<mapsto> None)\<rparr>)"
    using claim_off[OF b] by blast
  have on: "state r = Lobby \<and> assignments r ch = Some None \<longrightarrow>
            r_rooms (claimCharacter s ch rs)
              = rs(sd_code d \<mapsto> r\<lparr>assignments := (assignments r)(ch \<mapsto> Some (sd_name d))\<rparr>)"
    using claim_on[OF b] by blast
  have other: "assignments r ch = Some (Some a) \<and> a \<noteq> sd_name d \<and> a \<noteq> [] \<longrightarrow>
            r_rooms (claimCharacter s ch rs) = rs"
    using claim_other[OF b] by blast
  have nop: "state r \<noteq> Lobby \<or> \<not> hasProperty r ch \<longrightarrow> claimCharacter s ch rs = noop s rs"
    by (auto simp: claimCharacter_def b)
  have absent: "assignments r ch = None \<longrightarrow>
            r_rooms (claimCharacter s ch rs) = rs
            \<and> claimCharacter s ch rs =
                (if state r = Lobby \<and> inheriting r \<and> inherited ch
                 then (noop s rs)\<lparr>r_events := broadcastAssignments (sd_code d) rs\<rparr>
                 else noop s rs)"
    using claim_absent[OF b, of ch] by (simp add: noop_def)
  have four: "state r = Lobby \<and> assignments r ch = Some None \<longrightarrow>
            r_rooms (claimCharacter s ch (r_rooms (claimCharacter s ch
              (r_rooms (claimCharacter s ch (r_rooms (claimCharacter s ch rs))))))) = rs"
    using claim_twice[OF b] by simp
  from off on other nop absent four show ?thesis by blast
qed

text \<open>
  Ben releases Lead, which he owns; Ben takes Lead when nobody has it; Cal's claim on Ben's
  Lead changes nothing; during the performance and for an unknown character nothing
  happens; Ben's claim on \<open>toString\<close> changes nothing, and the assignments are sent as they
  are; and four claims by Ben on a free Lead leave it free.
\<close>

theorem C4_claimCharacter_toggle_witness:
  "r_rooms (claimCharacter (ex_sock 2 Player ''Ben'') ''Lead'' (ex_rooms ''Amy'' ex_cast Lobby 0)) ''ABCD''
     = Some (ex_room ''Amy'' (ex_cast(''Lead'' \<mapsto> None)) Lobby 0)
   \<and> r_rooms (claimCharacter (ex_sock 2 Player ''Ben'') ''Lead'' (ex_rooms ''Amy'' ex_unowned Lobby 0)) ''ABCD''
     = Some (ex_room ''Amy'' (ex_unowned(''Lead'' \<mapsto> Some ''Ben'')) Lobby 0)
   \<and> r_rooms (claimCharacter (ex_sock 3 Player ''Cal'') ''Lead'' (ex_rooms ''Amy'' ex_cast Lobby 0))
     = ex_rooms ''Amy'' ex_cast Lobby 0
   \<and> claimCharacter (ex_sock 2 Player ''Ben'') ''Lead'' (ex_rooms ''Amy'' ex_unowned Performance 1)
     = noop (ex_sock 2 Player ''Ben'') (ex_rooms ''Amy'' ex_unowned Performance 1)
   \<and> claimCharacter (ex_sock 2 Player ''Ben'') ''Ghost'' (ex_rooms ''Amy'' ex_cast Lobby 0)
     = noop (ex_sock 2 Player ''Ben'') (ex_rooms ''Amy'' ex_cast Lobby 0)
   \<and> claimCharacter (ex_sock 2 Player ''Ben'') ''toString'' (ex_rooms ''Amy'' ex_cast Lobby 0)
     = (noop (ex_sock 2 Player ''Ben'') (ex_rooms ''Amy'' ex_cast Lobby 0))
         \<lparr>r_events := [EvAssignments ''ABCD'' ex_cast, EvCastingComplete ''ABCD'' True]\<rparr>
   \<and> r_rooms (claimCharacter (ex_sock 2 Player ''Ben'') ''Lead''
       (r_rooms (claimCharacter (ex_sock 2 Player ''Ben'') ''Lead''
         (r_rooms (claimCharacter (ex_sock 2 Player ''Ben'') ''Lead''
           (r_rooms (claimCharacter (ex_sock 2 Player ''Ben'') ''Lead''
             (ex_rooms ''Amy'' ex_unowned Lobby 0))))))))
     = ex_rooms ''Amy'' ex_unowned Lobby 0"
proof -
  note ex = ex_script_def ex_cast_def ex_unowned_def ex_room_def ex_rooms_def ex_sock_def
  have "r_rooms (claimCharacter (ex_sock 2 Player ''Ben'') ''Lead'' (ex_rooms ''Amy'' ex_cast Lobby 0)) ''ABCD''
     = Some (ex_room ''Amy'' (ex_cast(''Lead'' \<mapsto> None)) Lobby 0)"
    using C4_claimCharacter_toggle[of "ex_sock 2 Player ''Ben''"
        "\<lparr>sd_code = ''ABCD'', sd_role = Player, sd_name = ''Ben''\<rparr>"
        "ex_rooms ''Amy'' ex_cast Lobby 0" "ex_room ''Amy'' ex_cast Lobby 0" "''Lead''" "''Ben''"]
    by (simp add: ex)
  moreover have "r_rooms (claimCharacter (ex_sock 2 Player ''Ben'') ''Lead'' (ex_rooms ''Amy'' ex_unowned Lobby 0)) ''ABCD''
     = Some (ex_room ''Amy'' (ex_unowned(''Lead'' \<mapsto> Some ''Ben'')) Lobby 0)"
    using C4_claimCharacter_toggle[of "ex_sock 2 Player ''Ben''"
        "\<lparr>sd_code = ''ABCD'', sd_role = Player, sd_name = ''Ben''\<rparr>"
        "ex_rooms ''Amy'' ex_unowned Lobby 0" "ex_room ''Amy'' ex_unowned Lobby 0" "''Lead''" "''Ben''"]
    by (simp add: ex)
  moreover have "r_rooms (claimCharacter (ex_sock 3 Player ''Cal'') ''Lead'' (ex_rooms ''Amy'' ex_cast Lobby 0))
     = ex_rooms ''Amy'' ex_cast Lobby 0"
    using C4_claimCharacter_toggle[of "ex_sock 3 Player ''Cal''"
        "\<lparr>sd_code = ''ABCD'', sd_role = Player, sd_name = ''Cal''\<rparr>"
        "ex_rooms ''Amy'' ex_cast Lobby 0" "ex_room ''Amy'' ex_cast Lobby 0" "''Lead''" "''Ben''"]
    by (simp add: ex)
  moreover have "claimCharacter (ex_sock 2 Player ''Ben'') ''Lead'' (ex_rooms ''Amy'' ex_unowned Performance 1)
     = noop (ex_sock 2 Player ''Ben'') (ex_rooms ''Amy'' ex_unowned Performance 1)"
    using C4_claimCharacter_toggle[of "ex_sock 2 Player ''Ben''"
        "\<lparr>sd_code = ''ABCD'', sd_role = Player, sd_name = ''Ben''\<rparr>"
        "ex_rooms ''Amy'' ex_unowned Performance 1" "ex_room ''Amy'' ex_unowned Performance 1"
        "''Lead''" "''Ben''"]
    by (simp add: ex)
  moreover have "claimCharacter (ex_sock 2 Player ''Ben'') ''Ghost'' (ex_rooms ''Amy'' ex_cast Lobby 0)
     = noop (ex_sock 2 Player ''Ben'') (ex_rooms ''Amy'' ex_cast Lobby 0)"
    using C4_claimCharacter_toggle[of "ex_sock 2 Player ''Ben''"
        "\<lparr>sd_code = ''ABCD'', sd_role = Player, sd_name = ''Ben''\<rparr>"
        "ex_rooms ''Amy'' ex_cast Lobby 0" "ex_room ''Amy'' ex_cast Lobby 0" "''Ghost''" "''Ben''"]
    by (simp add: ex hasProperty_def inherited_def)
  moreover have "claimCharacter (ex_sock 2 Player ''Ben'') ''toString'' (ex_rooms ''Amy'' ex_cast Lobby 0)
     = (noop (ex_sock 2 Player ''Ben'') (ex_rooms ''Amy'' ex_cast Lobby 0))
         \<lparr>r_events := [EvAssignments ''ABCD'' ex_cast, EvCastingComplete ''ABCD'' True]\<rparr>"
    using C4_claimCharacter_toggle[of "ex_sock 2 Player ''Ben''"
        "\<lparr>sd_code = ''ABCD'', sd_role = Player, sd_name = ''Ben''\<rparr>"
        "ex_rooms ''Amy'' ex_cast Lobby 0" "ex_room ''Amy'' ex_cast Lobby 0" "''toString''" "''Ben''"]
    by (simp add: ex inherited_def broadcastAssignments_def allCharactersAssigned_def truthy_at_def)
  moreover have "r_rooms (claimCharacter (ex_sock 2 Player ''Ben'') ''Lead''
       (r_rooms (claimCharacter (ex_sock 2 Player ''Ben'') ''Lead''
         (r_rooms (claimCharacter (ex_sock 2 Player ''Ben'') ''Lead''
           (r_rooms (claimCharacter (ex_sock 2 Player ''Ben'') ''Lead''
             (ex_rooms ''Amy'' ex_unowned Lobby 0))))))))
     = ex_rooms ''Amy'' ex_unowned Lobby 0"
    using C4_claimCharacter_toggle[of "ex_sock 2 Player ''Ben''"
        "\<lparr>sd_code = ''ABCD'', sd_role = Player, sd_name = ''Ben''\<rparr>"
        "ex_rooms ''Amy'' ex_unowned Lobby 0" "ex_room ''Amy'' ex_unowned Lobby 0" "''Lead''" "''Ben''",
        THEN conjunct2, THEN conjunct2, THEN conjunct2, THEN conjunct2, THEN conjunct2]
    by (simp add: ex)
  ultimately show ?thesis by blast
qed

subsection \<open>Forcing an assignment\<close>

text \<open>
  For a character that is not \<open>in\<close> \<open>assignments\<close> the host's \<open>force-assign\<close> does nothing.
  The name of a property of \<open>Object.prototype\<close> is \<open>in\<close> \<open>assignments\<close>: the host's
  \<open>force-assign\<close> of \<open>toString\<close> to Ben stores a new key and sends the assignments. For
  \<open>__proto__\<close> nothing is stored: with \<open>null\<close> the object loses its prototype, and
  \<open>toString\<close> is not \<open>in\<close> it any more; with a name nothing changes.
\<close>

lemma forceAssign_unknown:
  assumes "sdata s = Some d" and "sd_code d \<noteq> []" and "rs (sd_code d) = Some r"
    and "\<not> hasProperty r ch"
  shows "forceAssign s ch toPlayer rs = Inr (noop s rs)"
  using assms by (simp add: forceAssign_def bound_def)

lemma forceAssign_toString:
  "forceAssign (ex_sock 1 Host ''Amy'') ''toString'' (Some ''Ben'') (ex_rooms ''Amy'' ex_cast Lobby 0)
     = Inr ((noop (ex_sock 1 Host ''Amy'') (ex_rooms ''Amy'' ex_cast Lobby 0))
              \<lparr>r_rooms := ex_rooms ''Amy'' (ex_cast(''toString'' \<mapsto> Some ''Ben'')) Lobby 0,
               r_events := [EvAssignments ''ABCD'' (ex_cast(''toString'' \<mapsto> Some ''Ben'')),
                            EvCastingComplete ''ABCD'' True]\<rparr>)"
  by (simp add: forceAssign_def hasProperty_def inherited_def assign_def or_null_def
      broadcastAssignments_def allCharactersAssigned_def truthy_at_def Let_def ex_defs)

lemma forceAssign_proto:
  "room_after (forceAssign (ex_sock 1 Host ''Amy'') ''__proto__'' None (ex_rooms ''Amy'' ex_cast Lobby 0)) ''ABCD''
     = Some ((ex_room ''Amy'' ex_cast Lobby 0)\<lparr>inheriting := False\<rparr>)
   \<and> room_after (forceAssign (ex_sock 1 Host ''Amy'') ''__proto__'' (Some ''Ben'') (ex_rooms ''Amy'' ex_cast Lobby 0)) ''ABCD''
     = Some (ex_room ''Amy'' ex_cast Lobby 0)
   \<and> forceAssign (ex_sock 1 Host ''Amy'') ''toString'' None
        [''ABCD'' \<mapsto> (ex_room ''Amy'' ex_cast Lobby 0)\<lparr>inheriting := False\<rparr>]
     = Inr (noop (ex_sock 1 Host ''Amy'') [''ABCD'' \<mapsto> (ex_room ''Amy'' ex_cast Lobby 0)\<lparr>inheriting := False\<rparr>])"
  by (simp add: forceAssign_def hasProperty_def inherited_def assign_def or_null_def
      broadcastAssignments_def allCharactersAssigned_def truthy_at_def Let_def ex_defs)

subsection \<open>Starting the performance\<close>

text \<open>
  \<open>allCharactersAssigned\<close> asks for a truthy owner of every character of the script. In a
  room whose \<open>assignments\<close> has the script's character names as its keys (as it has when
  the room is created) and no empty name as an owner, that is: no key of \<open>assignments\<close>
  holds \<open>null\<close>.
\<close>

lemma allCharactersAssigned_iff:
  assumes "dom (assignments r) = cname ` set (characters (script r))"
    and "\<forall>ch. assignments r ch \<noteq> Some (Some [])"
  shows "allCharactersAssigned r \<longleftrightarrow> (\<forall>ch \<in> dom (assignments r). assignments r ch \<noteq> Some None)"
proof -
  have t: "truthy_at r ch \<longleftrightarrow> assignments r ch \<noteq> Some None" if "ch \<in> dom (assignments r)" for ch
    using assms(2)[rule_format, of ch] that
    by (cases "assignments r ch"; cases "the (assignments r ch)") (auto simp: truthy_at_def)
  show ?thesis
    unfolding allCharactersAssigned_def list_all_iff using t assms(1) by auto
qed

text \<open>
  C1 (amended). \<open>start-performance\<close> has two gates, the caller's role and the full cast; it
  does not look at the room's state. Called by the host with every character assigned
  and a script that has a beat, it puts the room into \<open>performance\<close> at beat 0, from any
  state, and leaves \<open>assignments\<close> alone. Called by anyone else, or with a character
  unassigned, it changes nothing and sends nothing.
\<close>

theorem C1_startPerformance_gate:
  assumes "sdata s = Some d" and "sd_code d \<noteq> []" and "rs (sd_code d) = Some r"
  shows "(sd_role d = Host \<and> allCharactersAssigned r \<and> beats (script r) \<noteq> [] \<longrightarrow>
            room_after (startPerformance s rs) (sd_code d)
              = Some (r\<lparr>state := Performance, currentBeat := 0\<rparr>))
       \<and> (sd_role d \<noteq> Host \<or> \<not> allCharactersAssigned r \<longrightarrow>
            startPerformance s rs = Inr (noop s rs))
       \<and> (dom (assignments r) = cname ` set (characters (script r))
            \<and> (\<forall>ch. assignments r ch \<noteq> Some (Some [])) \<longrightarrow>
            (allCharactersAssigned r \<longleftrightarrow>
               (\<forall>ch \<in> dom (assignments r). assignments r ch \<noteq> Some None)))"
proof -
  have b: "bound s rs = Some (d, r)"
    using assms by (rule bound_eq)
  have ok: "sd_role d = Host \<and> allCharactersAssigned r \<and> beats (script r) \<noteq> [] \<longrightarrow>
            room_after (startPerformance s rs) (sd_code d)
              = Some (r\<lparr>state := Performance, currentBeat := 0\<rparr>)"
    by (auto simp: startPerformance_def b sendCurrentBeat_def Let_def room_after_def)
  have no: "sd_role d \<noteq> Host \<or> \<not> allCharactersAssigned r \<longrightarrow>
            startPerformance s rs = Inr (noop s rs)"
    by (auto simp: startPerformance_def b)
  from ok no allCharactersAssigned_iff[of r] show ?thesis by blast
qed

text \<open>
  C1 as the specification states it fails: in a room that has ended, with the full cast,
  the host's \<open>start-performance\<close> changes the state to \<open>performance\<close> and the beat from 3
  to 0.
\<close>

theorem C1_counterexample:
  "state (ex_room ''Amy'' ex_cast Ended 3) \<noteq> Lobby
   \<and> allCharactersAssigned (ex_room ''Amy'' ex_cast Ended 3)
   \<and> state_after (startPerformance (ex_sock 1 Host ''Amy'') (ex_rooms ''Amy'' ex_cast Ended 3)) ''ABCD''
       = Some Performance
   \<and> currentBeat_after (startPerformance (ex_sock 1 Host ''Amy'') (ex_rooms ''Amy'' ex_cast Ended 3)) ''ABCD''
       = Some 0"
  by (simp add: startPerformance_def sendCurrentBeat_def allCharactersAssigned_def truthy_at_def
      state_after_def currentBeat_after_def Let_def ex_defs)

text \<open>
  In the lobby with the full cast the host starts the performance; Ben cannot; and with
  Extra unassigned the host cannot either.
\<close>

theorem C1_startPerformance_gate_witness:
  "room_after (startPerformance (ex_sock 1 Host ''Amy'') (ex_rooms ''Amy'' ex_cast Lobby 0)) ''ABCD''
     = Some (ex_room ''Amy'' ex_cast Performance 0)
   \<and> startPerformance (ex_sock 2 Player ''Ben'') (ex_rooms ''Amy'' ex_cast Lobby 0)
     = Inr (noop (ex_sock 2 Player ''Ben'') (ex_rooms ''Amy'' ex_cast Lobby 0))
   \<and> startPerformance (ex_sock 1 Host ''Amy'') (ex_rooms ''Amy'' ex_partial Lobby 0)
     = Inr (noop (ex_sock 1 Host ''Amy'') (ex_rooms ''Amy'' ex_partial Lobby 0))
   \<and> allCharactersAssigned (ex_room ''Amy'' ex_cast Lobby 0)
   \<and> \<not> allCharactersAssigned (ex_room ''Amy'' ex_partial Lobby 0)"
proof -
  note ex = ex_script_def ex_cast_def ex_partial_def ex_room_def ex_rooms_def ex_sock_def
    allCharactersAssigned_def truthy_at_def
  have "room_after (startPerformance (ex_sock 1 Host ''Amy'') (ex_rooms ''Amy'' ex_cast Lobby 0)) ''ABCD''
     = Some (ex_room ''Amy'' ex_cast Performance 0)"
    using C1_startPerformance_gate[of "ex_sock 1 Host ''Amy''"
        "\<lparr>sd_code = ''ABCD'', sd_role = Host, sd_name = ''Amy''\<rparr>"
        "ex_rooms ''Amy'' ex_cast Lobby 0" "ex_room ''Amy'' ex_cast Lobby 0"]
    by (simp add: ex)
  moreover have "startPerformance (ex_sock 2 Player ''Ben'') (ex_rooms ''Amy'' ex_cast Lobby 0)
     = Inr (noop (ex_sock 2 Player ''Ben'') (ex_rooms ''Amy'' ex_cast Lobby 0))"
    using C1_startPerformance_gate[of "ex_sock 2 Player ''Ben''"
        "\<lparr>sd_code = ''ABCD'', sd_role = Player, sd_name = ''Ben''\<rparr>"
        "ex_rooms ''Amy'' ex_cast Lobby 0" "ex_room ''Amy'' ex_cast Lobby 0"]
    by (simp add: ex)
  moreover have "startPerformance (ex_sock 1 Host ''Amy'') (ex_rooms ''Amy'' ex_partial Lobby 0)
     = Inr (noop (ex_sock 1 Host ''Amy'') (ex_rooms ''Amy'' ex_partial Lobby 0))"
    using C1_startPerformance_gate[of "ex_sock 1 Host ''Amy''"
        "\<lparr>sd_code = ''ABCD'', sd_role = Host, sd_name = ''Amy''\<rparr>"
        "ex_rooms ''Amy'' ex_partial Lobby 0" "ex_room ''Amy'' ex_partial Lobby 0"]
    by (simp add: ex)
  moreover have "allCharactersAssigned (ex_room ''Amy'' ex_cast Lobby 0)"
    using C1_startPerformance_gate[of "ex_sock 1 Host ''Amy''"
        "\<lparr>sd_code = ''ABCD'', sd_role = Host, sd_name = ''Amy''\<rparr>"
        "ex_rooms ''Amy'' ex_cast Lobby 0" "ex_room ''Amy'' ex_cast Lobby 0"]
    by (auto simp: ex_script_def ex_cast_def ex_room_def ex_rooms_def ex_sock_def split: if_splits)
  moreover have "\<not> allCharactersAssigned (ex_room ''Amy'' ex_partial Lobby 0)"
    using C1_startPerformance_gate[of "ex_sock 1 Host ''Amy''"
        "\<lparr>sd_code = ''ABCD'', sd_role = Host, sd_name = ''Amy''\<rparr>"
        "ex_rooms ''Amy'' ex_partial Lobby 0" "ex_room ''Amy'' ex_partial Lobby 0"]
    by (auto simp: ex_script_def ex_partial_def ex_room_def ex_rooms_def ex_sock_def split: if_splits)
  ultimately show ?thesis by blast
qed

text \<open>
  For a script with no beat, \<open>start-performance\<close> with the full cast does not return: the
  read of \<open>beat.type\<close> raises after the room has been put into performance.
\<close>

lemma startPerformance_no_beats:
  assumes "sdata s = Some d" and "sd_code d \<noteq> []" and "rs (sd_code d) = Some r"
    and "sd_role d = Host" and "allCharactersAssigned r" and "beats (script r) = []"
  shows "startPerformance s rs = Inl TypeError"
  using assms by (simp add: startPerformance_def bound_def sendCurrentBeat_def)

subsection \<open>Booting a player\<close>

lemma find_pname:
  "P \<in> pname ` set ps \<Longrightarrow> \<exists>t. find (\<lambda>p. pname p = P) ps = Some t"
  by (cases "find (\<lambda>p. pname p = P) ps") (auto simp: find_None_iff)

text \<open>
  In a performance whose current beat is a dialogue beat of a character owned by \<open>P\<close>, with
  a player named \<open>P\<close> in the room and a host of another name, the host's \<open>boot-player\<close> of
  \<open>P\<close> gives that character to the host's name; every other character owned by \<open>P\<close> becomes
  unassigned, the other assignments stay, and every player named \<open>P\<close> leaves the player
  list.
\<close>

lemma bootPlayer_hands_over:
  assumes "sdata s = Some d" and "sd_code d \<noteq> []" and "rs (sd_code d) = Some r"
    and "sd_role d = Host"
    and "state r = Performance" and "currentBeat r < length (beats (script r))"
    and "isDialogue (beats (script r) ! currentBeat r)"
    and "assignments r (bcharacter (beats (script r) ! currentBeat r)) = Some (Some P)"
    and "P \<in> pname ` set (players r)"
    and "hostName r \<noteq> P"
  shows "owner_after (bootPlayer live s P rs) (sd_code d) (bcharacter (beats (script r) ! currentBeat r))
           = Some (Some (hostName r))
       \<and> (ch \<noteq> bcharacter (beats (script r) ! currentBeat r) \<longrightarrow>
            owner_after (bootPlayer live s P rs) (sd_code d) ch
              = (if assignments r ch = Some (Some P) then Some None else assignments r ch))
       \<and> playerNames_after (bootPlayer live s P rs) (sd_code d)
           = Some (filter (\<lambda>n. n \<noteq> P) (map pname (players r)))
       \<and> state_after (bootPlayer live s P rs) (sd_code d) = Some Performance
       \<and> currentBeat_after (bootPlayer live s P rs) (sd_code d) = Some (currentBeat r)"
proof -
  have b: "bound s rs = Some (d, r)"
    using assms(1-3) by (rule bound_eq)
  obtain t where t: "find (\<lambda>p. pname p = P) (players r) = Some t"
    using find_pname[OF assms(9)] by blast
  have h: "handToHost r P =
      Inr (r\<lparr>assignments := (assignments r)(bcharacter (beats (script r) ! currentBeat r)
                                            \<mapsto> Some (hostName r))\<rparr>)"
    using assms(5-8) by (simp add: handToHost_def Let_def)
  have f: "map pname (filter (\<lambda>p. pname p \<noteq> P) ps) = filter (\<lambda>n. n \<noteq> P) (map pname ps)" for ps
    by (induction ps) auto
  show ?thesis
    using assms(4-6,10)
    by (auto simp: bootPlayer_def b t h f Let_def sendCurrentBeat_def room_after_def release_def
        owner_after_def playerNames_after_def state_after_def currentBeat_after_def)
qed

text \<open>
  The host Amy boots Ben on the line of Lead: Lead goes to Amy, Extra (Ben's other
  character) is unassigned, and Cal is the only player left.
\<close>

lemma bootPlayer_hands_over_to_Amy:
  "owner_after (bootPlayer (\<lambda>i. True) (ex_sock 1 Host ''Amy'') ''Ben''
                  (ex_rooms ''Amy'' ex_cast Performance 1)) ''ABCD'' ''Lead'' = Some (Some ''Amy'')
   \<and> owner_after (bootPlayer (\<lambda>i. True) (ex_sock 1 Host ''Amy'') ''Ben''
                  (ex_rooms ''Amy'' ex_cast Performance 1)) ''ABCD'' ''Extra'' = Some None
   \<and> playerNames_after (bootPlayer (\<lambda>i. True) (ex_sock 1 Host ''Amy'') ''Ben''
                  (ex_rooms ''Amy'' ex_cast Performance 1)) ''ABCD'' = Some [''Cal'']"
  using bootPlayer_hands_over[of "ex_sock 1 Host ''Amy''"
        "\<lparr>sd_code = ''ABCD'', sd_role = Host, sd_name = ''Amy''\<rparr>"
        "ex_rooms ''Amy'' ex_cast Performance 1" "ex_room ''Amy'' ex_cast Performance 1" "''Ben''"
        "\<lambda>i. True" "''Extra''"]
  by (simp add: ex_script_def ex_cast_def ex_room_def ex_rooms_def ex_sock_def isDialogue_def)

text \<open>
  C2. The specification has \<open>boot-player\<close> give the character of the active beat to the
  host, never leave it unassigned, and so has the handler's own comment (\<open>If the booted
  player owns the current active beat, hand it to the host\<close>). The handler stores the
  host's name for that character and then sets to \<open>null\<close> every character whose owner is
  the booted name. When the host and the booted player have the same display name, the
  second step undoes the first. Here the room is in performance on the line of Lead
  (beat 1), Lead is Ben's, and the host, whose name is Ben too, boots the player Ben: Lead
  ends unassigned, and the beat is sent again with no active player.
\<close>

theorem C2_boot_namesake:
  "state (ex_room ''Ben'' ex_cast Performance 1) = Performance
   \<and> hostName (ex_room ''Ben'' ex_cast Performance 1) = ''Ben''
   \<and> ''Ben'' \<in> pname ` set (players (ex_room ''Ben'' ex_cast Performance 1))
   \<and> isDialogue (beats ex_script ! 1) \<and> bcharacter (beats ex_script ! 1) = ''Lead''
   \<and> assignments (ex_room ''Ben'' ex_cast Performance 1) ''Lead'' = Some (Some ''Ben'')
   \<and> handToHost (ex_room ''Ben'' ex_cast Performance 1) ''Ben''
       = Inr (ex_room ''Ben'' (ex_cast(''Lead'' \<mapsto> Some ''Ben'')) Performance 1)
   \<and> owner_after (bootPlayer (\<lambda>i. True) (ex_sock 1 Host ''Ben'') ''Ben''
                     (ex_rooms ''Ben'' ex_cast Performance 1)) ''ABCD'' ''Lead''
       = Some None
   \<and> beatsFor ''ABCD'' (events_of (bootPlayer (\<lambda>i. True) (ex_sock 1 Host ''Ben'') ''Ben''
                     (ex_rooms ''Ben'' ex_cast Performance 1)))
       = [EvBeat ''ABCD'' 1 3 (beats ex_script ! 1) None]"
  by (simp add: bootPlayer_def handToHost_def release_def sendCurrentBeat_def owner_after_def Let_def
      broadcastPlayerList_def broadcastAssignments_def beatsFor_def ex_defs)

subsection \<open>Marking a beat done\<close>

lemma advanceBeat_step:
  assumes "rs code = Some r" and "state r = Performance"
  shows "\<exists>ou. advanceBeat code rs =
           Inr (rs(code \<mapsto> r\<lparr>currentBeat := currentBeat r + 1,
                               state := (if length (beats (script r)) \<le> currentBeat r + 1
                                         then Ended else Performance)\<rparr>), ou)"
  using assms
  by (auto simp: advanceBeat_def sendCurrentBeat_def Let_def)

text \<open>
  C5. During a performance, with a dialogue beat at \<open>currentBeat\<close>, \<open>beat-done\<close> moves
  \<open>currentBeat\<close> on by one exactly when the caller's name is the owner of the beat's
  character or the caller is the host; from any other caller, and from every caller on a
  beat that is not a dialogue beat, the handler changes nothing and sends nothing.
\<close>

theorem C5_beatDone_gate:
  assumes "sdata s = Some d" and "sd_code d \<noteq> []" and "rs (sd_code d) = Some r"
    and "state r = Performance" and "currentBeat r < length (beats (script r))"
  shows "(isDialogue (beats (script r) ! currentBeat r) \<longrightarrow>
            (if assignments r (bcharacter (beats (script r) ! currentBeat r)) = Some (Some (sd_name d))
                \<or> sd_role d = Host
             then currentBeat_after (beatDone s rs) (sd_code d) = Some (currentBeat r + 1)
             else beatDone s rs = Inr (noop s rs)))
       \<and> (\<not> isDialogue (beats (script r) ! currentBeat r) \<longrightarrow> beatDone s rs = Inr (noop s rs))"
proof -
  have b: "bound s rs = Some (d, r)"
    using assms by (simp add: bound_def)
  obtain ou where adv: "advanceBeat (sd_code d) rs =
      Inr (rs(sd_code d \<mapsto> r\<lparr>currentBeat := currentBeat r + 1,
                               state := (if length (beats (script r)) \<le> currentBeat r + 1
                                         then Ended else Performance)\<rparr>), ou)"
    using advanceBeat_step[of rs "sd_code d" r] assms(3,4) by blast
  show ?thesis
    using assms(4,5) by (auto simp: beatDone_def b adv Let_def room_after_def currentBeat_after_def)
qed

text \<open>
  On the line of Lead (beat 1): Ben, who plays Lead, and the host Amy each move the room to
  beat 2; Cal's request is dropped. On the stage direction (beat 0) the host's request is
  dropped too.
\<close>

theorem C5_beatDone_gate_witness:
  "currentBeat_after (beatDone (ex_sock 2 Player ''Ben'') (ex_rooms ''Amy'' ex_cast Performance 1)) ''ABCD''
    
     = Some 2
   \<and> currentBeat_after (beatDone (ex_sock 1 Host ''Amy'') (ex_rooms ''Amy'' ex_cast Performance 1)) ''ABCD''
    
     = Some 2
   \<and> beatDone (ex_sock 3 Player ''Cal'') (ex_rooms ''Amy'' ex_cast Performance 1)
     = Inr (noop (ex_sock 3 Player ''Cal'') (ex_rooms ''Amy'' ex_cast Performance 1))
   \<and> beatDone (ex_sock 1 Host ''Amy'') (ex_rooms ''Amy'' ex_cast Performance 0)
     = Inr (noop (ex_sock 1 Host ''Amy'') (ex_rooms ''Amy'' ex_cast Performance 0))"
proof -
  note ex = ex_script_def ex_cast_def ex_room_def ex_rooms_def ex_sock_def isDialogue_def
  have "currentBeat_after (beatDone (ex_sock 2 Player ''Ben'') (ex_rooms ''Amy'' ex_cast Performance 1)) ''ABCD''
    
     = Some 2"
    using C5_beatDone_gate[of "ex_sock 2 Player ''Ben''"
        "\<lparr>sd_code = ''ABCD'', sd_role = Player, sd_name = ''Ben''\<rparr>"
        "ex_rooms ''Amy'' ex_cast Performance 1" "ex_room ''Amy'' ex_cast Performance 1"]
    by (simp add: ex)
  moreover have "currentBeat_after (beatDone (ex_sock 1 Host ''Amy'') (ex_rooms ''Amy'' ex_cast Performance 1)) ''ABCD''
    
     = Some 2"
    using C5_beatDone_gate[of "ex_sock 1 Host ''Amy''"
        "\<lparr>sd_code = ''ABCD'', sd_role = Host, sd_name = ''Amy''\<rparr>"
        "ex_rooms ''Amy'' ex_cast Performance 1" "ex_room ''Amy'' ex_cast Performance 1"]
    by (simp add: ex)
  moreover have "beatDone (ex_sock 3 Player ''Cal'') (ex_rooms ''Amy'' ex_cast Performance 1)
     = Inr (noop (ex_sock 3 Player ''Cal'') (ex_rooms ''Amy'' ex_cast Performance 1))"
    using C5_beatDone_gate[of "ex_sock 3 Player ''Cal''"
        "\<lparr>sd_code = ''ABCD'', sd_role = Player, sd_name = ''Cal''\<rparr>"
        "ex_rooms ''Amy'' ex_cast Performance 1" "ex_room ''Amy'' ex_cast Performance 1"]
    by (simp add: ex)
  moreover have "beatDone (ex_sock 1 Host ''Amy'') (ex_rooms ''Amy'' ex_cast Performance 0)
     = Inr (noop (ex_sock 1 Host ''Amy'') (ex_rooms ''Amy'' ex_cast Performance 0))"
    using C5_beatDone_gate[of "ex_sock 1 Host ''Amy''"
        "\<lparr>sd_code = ''ABCD'', sd_role = Host, sd_name = ''Amy''\<rparr>"
        "ex_rooms ''Amy'' ex_cast Performance 0" "ex_room ''Amy'' ex_cast Performance 0"]
    by (simp add: ex)
  ultimately show ?thesis by blast
qed

text \<open>
  C10. During a performance, when the current beat is a dialogue beat whose character is
  unassigned (its owner is \<open>null\<close>), \<open>beat-done\<close> from the host moves \<open>currentBeat\<close> on by
  one and \<open>beat-done\<close> from any other caller is dropped. Such a room arises when the host
  force-assigns the character of the current beat to \<open>null\<close>: the handler stores \<open>null\<close>
  and leaves the state and the beat as they are.
\<close>

theorem C10_unowned_beat_host_only:
  assumes "sdata s = Some d" and "sd_code d \<noteq> []" and "rs (sd_code d) = Some r"
    and "state r = Performance" and "currentBeat r < length (beats (script r))"
    and "isDialogue (beats (script r) ! currentBeat r)"
  shows "(assignments r (bcharacter (beats (script r) ! currentBeat r)) = Some None \<longrightarrow>
            (if sd_role d = Host
             then currentBeat_after (beatDone s rs) (sd_code d) = Some (currentBeat r + 1)
             else beatDone s rs = Inr (noop s rs)))
       \<and> (assignments r (bcharacter (beats (script r) ! currentBeat r)) \<noteq> None \<and> sd_role d = Host \<longrightarrow>
            room_after (forceAssign s (bcharacter (beats (script r) ! currentBeat r)) None rs) (sd_code d)
              = Some (r\<lparr>assignments :=
                          (assignments r)(bcharacter (beats (script r) ! currentBeat r) \<mapsto> None)\<rparr>))"
proof -
  have b: "bound s rs = Some (d, r)"
    using assms(1-3) by (rule bound_eq)
  obtain ou where adv: "advanceBeat (sd_code d) rs =
      Inr (rs(sd_code d \<mapsto> r\<lparr>currentBeat := currentBeat r + 1,
                               state := (if length (beats (script r)) \<le> currentBeat r + 1
                                         then Ended else Performance)\<rparr>), ou)"
    using advanceBeat_step[of rs "sd_code d" r] assms(3,4) by blast
  have dn: "assignments r (bcharacter (beats (script r) ! currentBeat r)) = Some None \<longrightarrow>
            (if sd_role d = Host
             then currentBeat_after (beatDone s rs) (sd_code d) = Some (currentBeat r + 1)
             else beatDone s rs = Inr (noop s rs))"
    using assms(4-6) by (auto simp: beatDone_def b adv Let_def room_after_def currentBeat_after_def)
  have force: "assignments r (bcharacter (beats (script r) ! currentBeat r)) \<noteq> None \<and> sd_role d = Host \<longrightarrow>
            room_after (forceAssign s (bcharacter (beats (script r) ! currentBeat r)) None rs) (sd_code d)
              = Some (r\<lparr>assignments :=
                          (assignments r)(bcharacter (beats (script r) ! currentBeat r) \<mapsto> None)\<rparr>)"
    using assms(4-6)
    by (auto simp: forceAssign_def b sendCurrentBeat_def Let_def room_after_def or_null_def
        hasProperty_def assign_def)
  from dn force show ?thesis by blast
qed

text \<open>
  On the line of Lead with Lead unassigned: the host's \<open>beat-done\<close> moves to beat 2, Ben's
  is dropped; and the host's force-assign of Lead to \<open>null\<close> gives that room.
\<close>

theorem C10_unowned_beat_host_only_witness:
  "currentBeat_after (beatDone (ex_sock 1 Host ''Amy'') (ex_rooms ''Amy'' ex_unowned Performance 1)) ''ABCD''
     = Some 2
   \<and> beatDone (ex_sock 2 Player ''Ben'') (ex_rooms ''Amy'' ex_unowned Performance 1)
     = Inr (noop (ex_sock 2 Player ''Ben'') (ex_rooms ''Amy'' ex_unowned Performance 1))
   \<and> room_after (forceAssign (ex_sock 1 Host ''Amy'') ''Lead'' None (ex_rooms ''Amy'' ex_cast Performance 1)) ''ABCD''
     = Some (ex_room ''Amy'' (ex_cast(''Lead'' \<mapsto> None)) Performance 1)"
proof -
  note ex = ex_script_def ex_cast_def ex_unowned_def ex_room_def ex_rooms_def ex_sock_def isDialogue_def
  have "currentBeat_after (beatDone (ex_sock 1 Host ''Amy'') (ex_rooms ''Amy'' ex_unowned Performance 1)) ''ABCD''
     = Some 2"
    using C10_unowned_beat_host_only[of "ex_sock 1 Host ''Amy''"
        "\<lparr>sd_code = ''ABCD'', sd_role = Host, sd_name = ''Amy''\<rparr>"
        "ex_rooms ''Amy'' ex_unowned Performance 1" "ex_room ''Amy'' ex_unowned Performance 1"]
    by (simp add: ex)
  moreover have "beatDone (ex_sock 2 Player ''Ben'') (ex_rooms ''Amy'' ex_unowned Performance 1)
     = Inr (noop (ex_sock 2 Player ''Ben'') (ex_rooms ''Amy'' ex_unowned Performance 1))"
    using C10_unowned_beat_host_only[of "ex_sock 2 Player ''Ben''"
        "\<lparr>sd_code = ''ABCD'', sd_role = Player, sd_name = ''Ben''\<rparr>"
        "ex_rooms ''Amy'' ex_unowned Performance 1" "ex_room ''Amy'' ex_unowned Performance 1"]
    by (simp add: ex)
  moreover have "room_after (forceAssign (ex_sock 1 Host ''Amy'') ''Lead'' None (ex_rooms ''Amy'' ex_cast Performance 1)) ''ABCD''
     = Some (ex_room ''Amy'' (ex_cast(''Lead'' \<mapsto> None)) Performance 1)"
    using C10_unowned_beat_host_only[of "ex_sock 1 Host ''Amy''"
        "\<lparr>sd_code = ''ABCD'', sd_role = Host, sd_name = ''Amy''\<rparr>"
        "ex_rooms ''Amy'' ex_cast Performance 1" "ex_room ''Amy'' ex_cast Performance 1"]
    by (simp add: ex)
  ultimately show ?thesis by blast
qed

subsection \<open>The timer of a stage direction\<close>


lemma timerFire_changes:
  "timerFire t rs \<noteq> Inr (rs, no_out) \<Longrightarrow>
     \<exists>r. rs (t_code t) = Some r \<and> currentBeat r = t_beatIndex t \<and> state r = Performance"
  by (auto simp: timerFire_def split: option.splits if_splits)



subsection \<open>The beat index stays in range\<close>

text \<open>
  Each handler that returns keeps \<open>rooms_ok\<close>. The two places that set a beat index are
  \<open>advanceBeat\<close>, which ends the performance when the new index is past the last beat, and
  \<open>start-performance\<close>, which sets the index to 0 and then sends the beat: for a script
  with no beat that read raises, and the handler does not return.
\<close>

lemma rooms_ok_upd: "rooms_ok rs \<Longrightarrow> beat_in_range r \<Longrightarrow> rooms_ok (rs(c \<mapsto> r))"
  by (simp add: rooms_ok_def)

lemma rooms_ok_del: "rooms_ok rs \<Longrightarrow> rooms_ok (rs(c := None))"
  by (simp add: rooms_ok_def)

lemma rooms_okD: "rooms_ok rs \<Longrightarrow> rs c = Some r \<Longrightarrow> beat_in_range r"
  by (simp add: rooms_ok_def)

lemma advanceBeat_ok:
  assumes "rooms_ok rs" and "advanceBeat c rs = Inr (rs', ou)"
  shows "rooms_ok rs'"
proof (cases "rs c")
  case None
  with assms show ?thesis by (simp add: advanceBeat_def)
next
  case (Some r)
  show ?thesis
  proof (cases "state r = Performance")
    case False
    with Some assms show ?thesis by (simp add: advanceBeat_def)
  next
    case True
    from advanceBeat_step[of rs c r] Some True assms(2)
    have "rs' = rs(c \<mapsto> r\<lparr>currentBeat := currentBeat r + 1,
                               state := (if length (beats (script r)) \<le> currentBeat r + 1
                                         then Ended else Performance)\<rparr>)"
      by auto
    with assms(1) show ?thesis
      by (auto intro!: rooms_ok_upd simp: beat_in_range_def)
  qed
qed

lemma timerFire_ok:
  "rooms_ok rs \<Longrightarrow> timerFire t rs = Inr (rs', ou) \<Longrightarrow> rooms_ok rs'"
  by (auto simp: timerFire_def split: option.splits if_splits dest: advanceBeat_ok)

lemma createRoom_ok:
  "rooms_ok rs \<Longrightarrow> createRoom cat rnd s name ix cb rs = Some (Inr res) \<Longrightarrow> rooms_ok (r_rooms res)"
  by (auto simp: createRoom_def Let_def noop_def beat_in_range_def
      split: if_splits option.splits intro!: rooms_ok_upd)

lemma joinRoom_ok:
  "rooms_ok rs \<Longrightarrow> joinRoom s code name rs = Inr res \<Longrightarrow> rooms_ok (r_rooms res)"
  by (auto simp: joinRoom_def Let_def noop_def beat_in_range_def
      split: if_splits option.splits intro!: rooms_ok_upd dest: rooms_okD)

lemma claimCharacter_ok:
  assumes "rooms_ok rs"
  shows "rooms_ok (r_rooms (claimCharacter s ch rs))"
proof (cases s rs rule: bound_cases)
  case unbound
  with assms show ?thesis by (simp add: claimCharacter_def noop_def)
next
  case (bound d r)
  from rooms_okD[OF assms bound(2)] have "beat_in_range r" .
  with assms bound(1) show ?thesis
    by (auto simp: claimCharacter_def Let_def noop_def beat_in_range_def
        intro!: rooms_ok_upd)
qed

lemma disconnect_ok:
  assumes "rooms_ok rs"
  shows "rooms_ok (r_rooms (disconnect s rs))"
proof (cases s rs rule: bound_cases)
  case unbound
  with assms show ?thesis by (simp add: disconnect_def noop_def)
next
  case (bound d r)
  from rooms_okD[OF assms bound(2)] have "beat_in_range r" .
  with assms bound(1) show ?thesis
    by (auto simp: disconnect_def Let_def noop_def beat_in_range_def
        intro!: rooms_ok_upd rooms_ok_del)
qed

lemma forceAssign_ok:
  assumes "rooms_ok rs" and "forceAssign s ch toPlayer rs = Inr res"
  shows "rooms_ok (r_rooms res)"
proof (cases s rs rule: bound_cases)
  case unbound
  with assms show ?thesis by (auto simp: forceAssign_def noop_def)
next
  case (bound d r)
  from rooms_okD[OF assms(1) bound(2)] have "beat_in_range r" .
  with assms bound(1) show ?thesis
    by (auto simp: forceAssign_def Let_def noop_def beat_in_range_def
        split: if_splits sum.splits intro!: rooms_ok_upd)
qed

lemma handToHost_same:
  "handToHost r P = Inr r1 \<Longrightarrow> state r1 = state r \<and> currentBeat r1 = currentBeat r \<and> script r1 = script r"
  by (auto simp: handToHost_def Let_def split: if_splits)

lemma bootPlayer_ok:
  assumes "rooms_ok rs" and "bootPlayer live s P rs = Inr res"
  shows "rooms_ok (r_rooms res)"
proof (cases s rs rule: bound_cases)
  case unbound
  with assms show ?thesis by (auto simp: bootPlayer_def noop_def)
next
  case (bound d r)
  from rooms_okD[OF assms(1) bound(2)] have "beat_in_range r" .
  with assms bound(1) show ?thesis
    by (auto simp: bootPlayer_def Let_def noop_def beat_in_range_def
        split: if_splits option.splits sum.splits intro!: rooms_ok_upd dest!: handToHost_same)
qed

lemma startPerformance_ok:
  assumes "rooms_ok rs" and "startPerformance s rs = Inr res"
  shows "rooms_ok (r_rooms res)"
proof (cases s rs rule: bound_cases)
  case unbound
  with assms show ?thesis by (auto simp: startPerformance_def noop_def)
next
  case (bound d r)
  with assms show ?thesis
    by (auto simp: startPerformance_def Let_def noop_def beat_in_range_def sendCurrentBeat_def
        split: if_splits sum.splits intro!: rooms_ok_upd)
qed

lemma beatDone_ok:
  assumes "rooms_ok rs" and "beatDone s rs = Inr res"
  shows "rooms_ok (r_rooms res)"
proof (cases s rs rule: bound_cases)
  case unbound
  with assms show ?thesis by (auto simp: beatDone_def noop_def)
next
  case (bound d r)
  with assms show ?thesis
    by (auto simp: beatDone_def Let_def noop_def
        split: if_splits sum.splits dest: advanceBeat_ok)
qed

lemma handle_ok:
  "rooms_ok rs \<Longrightarrow> handle cat rnd live s req rs = Some (Inr res) \<Longrightarrow> rooms_ok (r_rooms res)"
  by (cases req)
    (auto simp: noop_def dest: createRoom_ok joinRoom_ok forceAssign_ok bootPlayer_ok startPerformance_ok
      beatDone_ok intro: claimCharacter_ok disconnect_ok)

lemma reachable_ok: "reachable cat w \<Longrightarrow> rooms_ok (w_rooms w)"
proof (induction rule: reachable.induct)
  case start
  show ?case by (simp add: rooms_ok_def)
next
  case (request w rnd live i req res)
  then show ?case by (auto dest: handle_ok)
next
  case (timer w t rs' ou)
  then show ?case by (auto dest: timerFire_ok)
qed

text \<open>
  C9. In every state the server can reach, a room in performance has \<open>currentBeat\<close> below
  the number of beats of its script. Every request whose handler returns keeps that
  invariant for every room of the table, and so do \<open>advanceBeat\<close> and the timer's callback.
\<close>

theorem C9_currentBeat_in_range:
  "(reachable cat w \<and> w_rooms w code = Some r \<and> state r = Performance \<longrightarrow>
      currentBeat r < length (beats (script r)))
   \<and> (rooms_ok rs \<and> handle cat rnd live s req rs = Some (Inr res) \<longrightarrow> rooms_ok (r_rooms res))
   \<and> (rooms_ok rs \<and> advanceBeat c rs = Inr (rs', ou) \<longrightarrow> rooms_ok rs')
   \<and> (rooms_ok rs \<and> timerFire t rs = Inr (rs', ou) \<longrightarrow> rooms_ok rs')"
proof -
  have "reachable cat w \<and> w_rooms w code = Some r \<and> state r = Performance \<longrightarrow>
      currentBeat r < length (beats (script r))"
    using reachable_ok[of cat w] rooms_okD[of "w_rooms w" code r]
    by (auto simp: beat_in_range_def)
  then show ?thesis
    using handle_ok[of rs cat rnd live s req res] advanceBeat_ok[of rs c rs' ou]
      timerFire_ok[of rs t rs' ou]
    by blast
qed

text \<open>Amy creates a room (the code drawn is AAAA) and starts the performance.\<close>

lemma ex_world_reachable: "reachable [ex_solo] (ex_world Performance)"
proof -
  let ?cat = "[ex_solo]"
  let ?w0 = "\<lparr>w_rooms = Map.empty, w_socks = (\<lambda>i. None)\<rparr> :: world"
  have r0: "reachable ?cat ?w0" by (rule reachable.start)
  have rnd: "\<forall>k. (\<lambda>k. 0 :: nat) k < length chars" by (simp add: chars_def)
  have h1: "handle ?cat (\<lambda>k. 0) (\<lambda>i. True) \<lparr>sid = 1, sdata = w_socks ?w0 1\<rparr>
              (CreateRoom (Some ''Amy'') None True) (w_rooms ?w0)
            = Some (Inr \<lparr>r_rooms = [''AAAA'' \<mapsto> ex_solo_room Lobby],
                         r_data = Some \<lparr>sd_code = ''AAAA'', sd_role = Host, sd_name = ''Amy''\<rparr>,
                         r_ack = Some (AckCreated ''AAAA'' ''Solo'' []),
                         r_events = [], r_timers = []\<rparr>)"
    by (simp add: createRoom_def makeUniqueCode.simps generateCode_unfold charAt_def chars_def
        pickScript_def initialAssignments_def trimmed_def trim_def trimStart.simps trimEnd.simps leading_def trailing_def white_space_def
        ex_solo_def ex_solo_room_def Let_def)
  have r1: "reachable ?cat (ex_world Lobby)"
    using reachable.request[OF r0 rnd h1] by (simp add: ex_world_def)
  have h2: "handle ?cat (\<lambda>k. 0) (\<lambda>i. True) \<lparr>sid = 1, sdata = w_socks (ex_world Lobby) 1\<rparr>
              StartPerformance (w_rooms (ex_world Lobby))
            = Some (Inr \<lparr>r_rooms = [''AAAA'' \<mapsto> ex_solo_room Performance],
                         r_data = Some \<lparr>sd_code = ''AAAA'', sd_role = Host, sd_name = ''Amy''\<rparr>,
                         r_ack = None,
                         r_events = [EvPerformanceStarted ''AAAA'' ''Solo'',
                                     EvBeat ''AAAA'' 0 1 (beats ex_solo ! 0) None],
                         r_timers = [\<lparr>t_code = ''AAAA'', t_beatIndex = 0, t_delay = 4000\<rparr>]\<rparr>)"
    by (simp add: startPerformance_def sendCurrentBeat_def bound_def allCharactersAssigned_def
        isDialogue_def ex_world_def ex_solo_def ex_solo_room_def Let_def)
  show ?thesis
    using reachable.request[OF r1 rnd h2] by (simp add: ex_world_def)
qed

text \<open>
  The room AAAA is reached in performance, at beat 0 of 1; and a join request on the room
  ABCD, in performance at beat 1 of 3, keeps the invariant: it leaves the table as it is.
\<close>

theorem C9_currentBeat_in_range_witness:
  "reachable [ex_solo] (ex_world Performance)
   \<and> state (ex_solo_room Performance) = Performance
   \<and> currentBeat (ex_solo_room Performance) < length (beats (script (ex_solo_room Performance)))
   \<and> rooms_ok (ex_rooms ''Amy'' ex_cast Performance 1)
   \<and> rooms_after (joinRoom ex_new ''ABCD'' (Some ''Zed'') (ex_rooms ''Amy'' ex_cast Performance 1))
       = Some (ex_rooms ''Amy'' ex_cast Performance 1)"
proof -
  have j: "joinRoom ex_new ''ABCD'' (Some ''Zed'') (ex_rooms ''Amy'' ex_cast Performance 1)
      = Inr ((noop ex_new (ex_rooms ''Amy'' ex_cast Performance 1))
               \<lparr>r_ack := Some (AckError ''Performance already started.'')\<rparr>)"
    by (rule joinRoom_performance[of _ _ "ex_room ''Amy'' ex_cast Performance 1"])
      (simp_all add: ex_rooms_def ex_room_def)
  have ok: "rooms_ok (ex_rooms ''Amy'' ex_cast Performance 1)"
    by (auto simp: rooms_ok_def beat_in_range_def ex_rooms_def ex_room_def ex_script_def split: if_splits)
  have "currentBeat (ex_solo_room Performance) < length (beats (script (ex_solo_room Performance)))"
    using ex_world_reachable
      C9_currentBeat_in_range[where cat="[ex_solo]" and w="ex_world Performance" and code="''AAAA''"
        and r="ex_solo_room Performance", THEN conjunct1]
    by (simp add: ex_world_def ex_solo_room_def)
  moreover have "rooms_after (joinRoom ex_new ''ABCD'' (Some ''Zed'') (ex_rooms ''Amy'' ex_cast Performance 1))
       = Some (ex_rooms ''Amy'' ex_cast Performance 1)"
    using ok j
      C9_currentBeat_in_range[where rs="ex_rooms ''Amy'' ex_cast Performance 1"
        and req="JoinRoom ''ABCD'' (Some ''Zed'')" and s=ex_new
        and res="(noop ex_new (ex_rooms ''Amy'' ex_cast Performance 1))
                   \<lparr>r_ack := Some (AckError ''Performance already started.'')\<rparr>",
        THEN conjunct2, THEN conjunct1]
    by (simp add: rooms_after_def noop_def)
  ultimately show ?thesis
    using ex_world_reachable ok by (simp add: ex_solo_room_def)
qed

subsection \<open>After the last beat\<close>

text \<open>
  In a room that has ended, every handler but \<open>start-performance\<close> sends no beat for the
  room, sets no timer for it, and leaves it ended (the host's \<open>disconnect\<close> removes it).
\<close>

lemma beatsFor_simps [simp]:
  "beatsFor code [] = []"
  "beatsFor code (xs @ ys) = beatsFor code xs @ beatsFor code ys"
  "beatsFor code (EvBeat c i n b a # xs) = (if c = code then EvBeat c i n b a # beatsFor code xs else beatsFor code xs)"
  "beatsFor code (EvPlayerList c l # xs) = beatsFor code xs"
  "beatsFor code (EvAssignments c m # xs) = beatsFor code xs"
  "beatsFor code (EvCastingComplete c f # xs) = beatsFor code xs"
  "beatsFor code (EvPerformanceStarted c ti # xs) = beatsFor code xs"
  "beatsFor code (EvPerformanceEnded c # xs) = beatsFor code xs"
  "beatsFor code (EvHostLeft c # xs) = beatsFor code xs"
  "beatsFor code (EvKicked k m' # xs) = beatsFor code xs"
  "beatsFor code (EvPong k # xs) = beatsFor code xs"
  by (simp_all add: beatsFor_def)

lemma beatsFor_broadcast [simp]:
  "beatsFor code (broadcastPlayerList c rs) = []"
  "beatsFor code (broadcastAssignments c rs) = []"
  by (simp_all add: broadcastPlayerList_def broadcastAssignments_def split: option.splits)

lemma timersFor_simps [simp]:
  "timersFor code [] = []"
  "timersFor code (t # ts) = (if t_code t = code then t # timersFor code ts else timersFor code ts)"
  by (simp_all add: timersFor_def)

lemma ended_at_upd:
  "ended_at (rs(c \<mapsto> r)) code = (if c = code then state r = Ended else ended_at rs code)"
  by (simp add: ended_at_def)

lemma ended_atD: "ended_at rs code \<Longrightarrow> rs code = Some r \<Longrightarrow> state r = Ended"
  by (simp add: ended_at_def)

lemma ended_at_or_gone: "ended_at rs code \<Longrightarrow> ended_or_gone rs code"
  by (simp add: ended_at_def ended_or_gone_def split: option.splits)

lemma sendCurrentBeat_quiet:
  assumes "ended_at rs code" and "sendCurrentBeat c rs = Inr ou"
  shows "beatsFor code (events ou) = [] \<and> timersFor code (timers ou) = []"
  using assms
  by (auto simp: sendCurrentBeat_def ended_at_def no_out_def Let_def split: option.splits if_splits)

lemma advanceBeat_quiet:
  assumes "ended_at rs code" and "advanceBeat c rs = Inr (rs', ou)"
  shows "beatsFor code (events ou) = [] \<and> timersFor code (timers ou) = [] \<and> ended_at rs' code"
proof (cases "c = code")
  case True
  with assms show ?thesis
    by (auto simp: advanceBeat_def ended_at_def no_out_def split: option.splits)
next
  case False
  with assms show ?thesis
    by (auto simp: advanceBeat_def sendCurrentBeat_def ended_at_def no_out_def Let_def
        split: option.splits if_splits)
qed

lemma timerFire_quiet:
  assumes "ended_at rs code" and "timerFire t rs = Inr (rs', ou)"
  shows "beatsFor code (events ou) = [] \<and> timersFor code (timers ou) = [] \<and> ended_at rs' code"
  using assms
  by (auto simp: timerFire_def no_out_def split: option.splits if_splits dest: advanceBeat_quiet)

lemma createRoom_quiet:
  assumes "ended_at rs code" and "createRoom cat rnd s name ix cb rs = Some (Inr res)"
  shows "beatsFor code (r_events res) = [] \<and> timersFor code (r_timers res) = [] \<and> ended_at (r_rooms res) code"
  using assms
  by (auto simp: createRoom_def Let_def noop_def ended_at_def
      split: if_splits option.splits dest!: makeUniqueCode_sound)

lemma joinRoom_quiet:
  assumes "ended_at rs code" and "joinRoom s c name rs = Inr res"
  shows "beatsFor code (r_events res) = [] \<and> timersFor code (r_timers res) = []
       \<and> ended_at (r_rooms res) code"
  using assms
  by (auto simp: joinRoom_def Let_def noop_def ended_at_def split: option.splits if_splits)

lemma claimCharacter_quiet:
  assumes "ended_at rs code"
  shows "beatsFor code (r_events (claimCharacter s ch rs)) = []
       \<and> timersFor code (r_timers (claimCharacter s ch rs)) = []
       \<and> ended_at (r_rooms (claimCharacter s ch rs)) code"
proof (cases s rs rule: bound_cases)
  case unbound
  with assms show ?thesis by (simp add: claimCharacter_def noop_def)
next
  case (bound d r)
  with assms show ?thesis
    by (auto simp: claimCharacter_def Let_def noop_def ended_at_def split: option.splits)
qed

lemma disconnect_quiet:
  assumes "ended_at rs code"
  shows "beatsFor code (r_events (disconnect s rs)) = []
       \<and> timersFor code (r_timers (disconnect s rs)) = []
       \<and> ended_or_gone (r_rooms (disconnect s rs)) code"
proof (cases s rs rule: bound_cases)
  case unbound
  with assms show ?thesis by (simp add: disconnect_def noop_def ended_at_or_gone)
next
  case (bound d r)
  with assms show ?thesis
    by (auto simp: disconnect_def Let_def noop_def ended_at_def ended_or_gone_def split: option.splits)
qed

lemma forceAssign_quiet:
  assumes "ended_at rs code" and "forceAssign s ch toPlayer rs = Inr res"
  shows "beatsFor code (r_events res) = [] \<and> timersFor code (r_timers res) = [] \<and> ended_at (r_rooms res) code"
proof (cases s rs rule: bound_cases)
  case unbound
  with assms show ?thesis by (auto simp: forceAssign_def noop_def)
next
  case (bound d r)
  show ?thesis
  proof (cases "sd_code d = code")
    case True
    with assms bound show ?thesis
      by (auto simp: forceAssign_def Let_def noop_def ended_at_def no_out_def split: if_splits)
  next
    case False
    with assms bound show ?thesis
      by (auto simp: forceAssign_def Let_def noop_def ended_at_upd no_out_def
          split: if_splits sum.splits dest: sendCurrentBeat_quiet[rotated])
  qed
qed

lemma bootPlayer_quiet:
  assumes "ended_at rs code" and "bootPlayer live s P rs = Inr res"
  shows "beatsFor code (r_events res) = [] \<and> timersFor code (r_timers res) = [] \<and> ended_at (r_rooms res) code"
proof (cases s rs rule: bound_cases)
  case unbound
  with assms show ?thesis by (auto simp: bootPlayer_def noop_def)
next
  case (bound d r)
  show ?thesis
  proof (cases "sd_code d = code")
    case True
    with assms bound have "state r = Ended" by (simp add: ended_at_def)
    then have "handToHost r P = Inr r" by (simp add: handToHost_def)
    with assms bound True \<open>state r = Ended\<close> show ?thesis
      by (auto simp: bootPlayer_def Let_def noop_def ended_at_def no_out_def
          split: if_splits option.splits)
  next
    case False
    with assms bound show ?thesis
      by (auto simp: bootPlayer_def Let_def noop_def ended_at_upd no_out_def
          split: if_splits sum.splits option.splits dest: sendCurrentBeat_quiet[rotated])
  qed
qed

lemma beatDone_quiet:
  assumes "ended_at rs code" and "beatDone s rs = Inr res"
  shows "beatsFor code (r_events res) = [] \<and> timersFor code (r_timers res) = [] \<and> ended_at (r_rooms res) code"
proof (cases s rs rule: bound_cases)
  case unbound
  with assms show ?thesis by (auto simp: beatDone_def noop_def)
next
  case (bound d r)
  with assms show ?thesis
    by (auto simp: beatDone_def Let_def noop_def
        split: if_splits sum.splits dest: advanceBeat_quiet)
qed

lemma handle_quiet:
  assumes "ended_at rs code" and "req \<noteq> StartPerformance"
    and "handle cat rnd live s req rs = Some (Inr res)"
  shows "beatsFor code (r_events res) = [] \<and> timersFor code (r_timers res) = []
         \<and> ended_or_gone (r_rooms res) code"
proof (cases req)
  case (CreateRoom name ix cb)
  with assms createRoom_quiet[of rs code cat rnd s name ix cb res] show ?thesis
    by (simp add: ended_at_or_gone)
next
  case (JoinRoom c name)
  with assms joinRoom_quiet[of rs code s c name res] show ?thesis
    by (simp add: ended_at_or_gone)
next
  case (ClaimCharacter ch)
  with assms claimCharacter_quiet[of rs code s ch] show ?thesis
    by (auto simp: ended_at_or_gone)
next
  case (ForceAssign ch toPlayer)
  with assms forceAssign_quiet[of rs code s ch toPlayer res] show ?thesis
    by (simp add: ended_at_or_gone)
next
  case (BootPlayer P)
  with assms bootPlayer_quiet[of rs code live s P res] show ?thesis
    by (simp add: ended_at_or_gone)
next
  case StartPerformance
  with assms show ?thesis by simp
next
  case BeatDone
  with assms beatDone_quiet[of rs code s res] show ?thesis
    by (simp add: ended_at_or_gone)
next
  case Disconnect
  with assms disconnect_quiet[of rs code s] show ?thesis
    by auto
next
  case Ping
  with assms show ?thesis
    by (auto simp: noop_def ended_at_or_gone)
qed

text \<open>
  C6 (amended). When \<open>advanceBeat\<close> moves \<open>currentBeat\<close> past the last beat, the room's state
  becomes \<open>ended\<close>, \<open>performance-ended\<close> is sent, and no beat is sent. A second \<open>advanceBeat\<close>
  changes nothing and sends nothing, so the transition and its notification happen once.
  From then on no request other than \<open>start-performance\<close>, and no timer, sends a beat for
  the room or sets a timer for it, and the room stays ended until the host's disconnect
  removes it. \<open>start-performance\<close> is left out: it does not look at the state (see C1).
\<close>

theorem C6_past_the_last_beat:
  assumes "rs code = Some r" and "state r = Performance"
    and "length (beats (script r)) \<le> currentBeat r + 1"
  shows "advanceBeat code rs =
           Inr (rs(code \<mapsto> r\<lparr>currentBeat := currentBeat r + 1, state := Ended\<rparr>),
                \<lparr>events = [EvPerformanceEnded code], timers = []\<rparr>)
       \<and> advanceBeat code (rs(code \<mapsto> r\<lparr>currentBeat := currentBeat r + 1, state := Ended\<rparr>)) =
           Inr (rs(code \<mapsto> r\<lparr>currentBeat := currentBeat r + 1, state := Ended\<rparr>), no_out)
       \<and> (ended_at rs2 code \<and> req \<noteq> StartPerformance
            \<and> handle cat rnd live s req rs2 = Some (Inr res) \<longrightarrow>
            beatsFor code (r_events res) = [] \<and> timersFor code (r_timers res) = []
            \<and> ended_or_gone (r_rooms res) code)
       \<and> (ended_at rs2 code \<and> timerFire t rs2 = Inr (rs3, ou) \<longrightarrow>
            beatsFor code (events ou) = [] \<and> timersFor code (timers ou) = [] \<and> ended_at rs3 code)"
proof -
  have adv: "advanceBeat code rs =
           Inr (rs(code \<mapsto> r\<lparr>currentBeat := currentBeat r + 1, state := Ended\<rparr>),
                \<lparr>events = [EvPerformanceEnded code], timers = []\<rparr>)"
    using assms by (simp add: advanceBeat_def Let_def)
  have once: "advanceBeat code (rs(code \<mapsto> r\<lparr>currentBeat := currentBeat r + 1, state := Ended\<rparr>)) =
           Inr (rs(code \<mapsto> r\<lparr>currentBeat := currentBeat r + 1, state := Ended\<rparr>), no_out)"
    by (simp add: advanceBeat_def)
  have reqs: "ended_at rs2 code \<and> req \<noteq> StartPerformance
            \<and> handle cat rnd live s req rs2 = Some (Inr res) \<longrightarrow>
            beatsFor code (r_events res) = [] \<and> timersFor code (r_timers res) = []
            \<and> ended_or_gone (r_rooms res) code"
    using handle_quiet[of rs2 code req cat rnd live s res] by blast
  have tmr: "ended_at rs2 code \<and> timerFire t rs2 = Inr (rs3, ou) \<longrightarrow>
            beatsFor code (events ou) = [] \<and> timersFor code (timers ou) = [] \<and> ended_at rs3 code"
    using timerFire_quiet[of rs2 code t rs3 ou] by blast
  from adv once reqs tmr show ?thesis by blast
qed

text \<open>
  C6 as the specification states it fails: after the last beat the room has ended; the
  host's \<open>start-performance\<close> then sends beat 0 again and the room is back in performance.
\<close>

theorem C6_counterexample:
  "advanceBeat ''ABCD'' (ex_rooms ''Amy'' ex_cast Performance 2)
     = Inr (ex_rooms ''Amy'' ex_cast Ended 3, \<lparr>events = [EvPerformanceEnded ''ABCD''], timers = []\<rparr>)
   \<and> beatsFor ''ABCD'' (events_of (startPerformance (ex_sock 1 Host ''Amy'') (ex_rooms ''Amy'' ex_cast Ended 3)))
       = [EvBeat ''ABCD'' 0 3 (beats ex_script ! 0) None]
   \<and> state_after (startPerformance (ex_sock 1 Host ''Amy'') (ex_rooms ''Amy'' ex_cast Ended 3)) ''ABCD''
       = Some Performance"
  by (simp add: advanceBeat_def startPerformance_def sendCurrentBeat_def allCharactersAssigned_def
      truthy_at_def state_after_def Let_def ex_defs)

text \<open>
  The room ends after its third beat; advancing again does nothing; Zed's join and the
  host's disconnect send no beat; a late timer does nothing.
\<close>

theorem C6_past_the_last_beat_witness:
  "advanceBeat ''ABCD'' (ex_rooms ''Amy'' ex_cast Performance 2)
     = Inr (ex_rooms ''Amy'' ex_cast Ended 3, \<lparr>events = [EvPerformanceEnded ''ABCD''], timers = []\<rparr>)
   \<and> advanceBeat ''ABCD'' (ex_rooms ''Amy'' ex_cast Ended 3)
     = Inr (ex_rooms ''Amy'' ex_cast Ended 3, no_out)
   \<and> beatsFor ''ABCD'' (events_of (joinRoom ex_new ''ABCD'' (Some ''Zed'') (ex_rooms ''Amy'' ex_cast Ended 3))) = []
   \<and> state_after (joinRoom ex_new ''ABCD'' (Some ''Zed'') (ex_rooms ''Amy'' ex_cast Ended 3)) ''ABCD''
       = Some Ended
   \<and> ended_or_gone (r_rooms (disconnect (ex_sock 1 Host ''Amy'') (ex_rooms ''Amy'' ex_cast Ended 3))) ''ABCD''
   \<and> timerFire \<lparr>t_code = ''ABCD'', t_beatIndex = 3, t_delay = 4000\<rparr> (ex_rooms ''Amy'' ex_cast Ended 3)
     = Inr (ex_rooms ''Amy'' ex_cast Ended 3, no_out)"
proof -
  note ex = ex_script_def ex_cast_def ex_room_def ex_rooms_def ex_sock_def ex_new_def
  have e: "ended_at (ex_rooms ''Amy'' ex_cast Ended 3) ''ABCD''"
    by (simp add: ended_at_def ex)
  let ?rs' = "(ex_rooms ''Amy'' ex_cast Ended 3)
                (''ABCD'' \<mapsto> (ex_room ''Amy'' ex_cast Ended 3)
                   \<lparr>players := players (ex_room ''Amy'' ex_cast Ended 3) @ [\<lparr>pid = 4, pname = ''Zed''\<rparr>]\<rparr>)"
  let ?res = "\<lparr>r_rooms = ?rs',
               r_data = Some \<lparr>sd_code = ''ABCD'', sd_role = Player, sd_name = ''Zed''\<rparr>,
               r_ack = Some (AckJoined ''Zed'' ''Demo'' (characters ex_script) ex_cast),
               r_events = broadcastPlayerList ''ABCD'' ?rs' @ broadcastAssignments ''ABCD'' ?rs',
               r_timers = []\<rparr>"
  have j: "joinRoom ex_new ''ABCD'' (Some ''Zed'') (ex_rooms ''Amy'' ex_cast Ended 3) = Inr ?res"
    by (simp add: joinRoom_def trimmed_def trim_def trimStart.simps trimEnd.simps leading_def
        trailing_def white_space_def Let_def ex)
  have "advanceBeat ''ABCD'' (ex_rooms ''Amy'' ex_cast Performance 2)
     = Inr (ex_rooms ''Amy'' ex_cast Ended 3, \<lparr>events = [EvPerformanceEnded ''ABCD''], timers = []\<rparr>)"
    using C6_past_the_last_beat[of "ex_rooms ''Amy'' ex_cast Performance 2" "''ABCD''"
        "ex_room ''Amy'' ex_cast Performance 2", THEN conjunct1]
    by (simp add: ex)
  moreover have "advanceBeat ''ABCD'' (ex_rooms ''Amy'' ex_cast Ended 3)
     = Inr (ex_rooms ''Amy'' ex_cast Ended 3, no_out)"
    using C6_past_the_last_beat[of "ex_rooms ''Amy'' ex_cast Performance 2" "''ABCD''"
        "ex_room ''Amy'' ex_cast Performance 2", THEN conjunct2, THEN conjunct1]
    by (simp add: ex)
  moreover have "beatsFor ''ABCD'' (events_of (joinRoom ex_new ''ABCD'' (Some ''Zed'') (ex_rooms ''Amy'' ex_cast Ended 3))) = []
   \<and> state_after (joinRoom ex_new ''ABCD'' (Some ''Zed'') (ex_rooms ''Amy'' ex_cast Ended 3)) ''ABCD''
       = Some Ended"
    using e j C6_past_the_last_beat[where rs="ex_rooms ''Amy'' ex_cast Performance 2" and code="''ABCD''"
        and r="ex_room ''Amy'' ex_cast Performance 2" and ?rs2.0="ex_rooms ''Amy'' ex_cast Ended 3"
        and req="JoinRoom ''ABCD'' (Some ''Zed'')" and s=ex_new and res="?res",
        THEN conjunct2, THEN conjunct2, THEN conjunct1]
    by (simp add: ex_script_def ex_room_def ex_rooms_def events_of_def state_after_def room_after_def
        ended_or_gone_def)
  moreover have "ended_or_gone (r_rooms (disconnect (ex_sock 1 Host ''Amy'') (ex_rooms ''Amy'' ex_cast Ended 3))) ''ABCD''"
    using e C6_past_the_last_beat[where rs="ex_rooms ''Amy'' ex_cast Performance 2" and code="''ABCD''"
        and r="ex_room ''Amy'' ex_cast Performance 2" and ?rs2.0="ex_rooms ''Amy'' ex_cast Ended 3"
        and req="Disconnect" and s="ex_sock 1 Host ''Amy''"
        and res="disconnect (ex_sock 1 Host ''Amy'') (ex_rooms ''Amy'' ex_cast Ended 3)",
        THEN conjunct2, THEN conjunct2, THEN conjunct1]
    by (simp add: ex_script_def ex_room_def ex_rooms_def)
  moreover have "timerFire \<lparr>t_code = ''ABCD'', t_beatIndex = 3, t_delay = 4000\<rparr> (ex_rooms ''Amy'' ex_cast Ended 3)
     = Inr (ex_rooms ''Amy'' ex_cast Ended 3, no_out)"
    by (simp add: timerFire_def ex)
  ultimately show ?thesis by blast
qed

subsection \<open>Names are not empty\<close>

text \<open>
  Every state the server can reach satisfies \<open>names_ok\<close>: an owner that is not the caller
  is a name of somebody else, never the empty string; every character of the script has
  its key in \<open>assignments\<close>; and the code of a room never leads \<open>rooms[code]\<close> to a property
  of \<open>Object.prototype\<close>.
\<close>

lemma rooms_wf_upd: "rooms_wf rs \<Longrightarrow> room_wf r \<Longrightarrow> code_ok c \<Longrightarrow> rooms_wf (rs(c \<mapsto> r))"
  by (simp add: rooms_wf_def)

lemma rooms_wf_del: "rooms_wf rs \<Longrightarrow> rooms_wf (rs(c := None))"
  by (simp add: rooms_wf_def)

lemma rooms_wfD: "rooms_wf rs \<Longrightarrow> rs c = Some r \<Longrightarrow> room_wf r \<and> code_ok c"
  by (simp add: rooms_wf_def)

lemma dom_release [simp]: "dom (release m n) = dom m"
  by (auto simp: release_def dom_def)

lemma release_nonempty: "\<forall>ch. m ch \<noteq> Some (Some []) \<Longrightarrow> release m n ch \<noteq> Some (Some [])"
  by (simp add: release_def)

lemma room_wf_store:
  assumes "room_wf r" and "v \<noteq> Some []"
  shows "room_wf (r\<lparr>assignments := (assignments r)(ch \<mapsto> v)\<rparr>)"
  using assms by (auto simp: room_wf_def)

lemma room_wf_assign:
  assumes "room_wf r" and "v \<noteq> Some []"
  shows "room_wf (assign r ch v)"
  using assms by (auto simp: room_wf_def assign_def)

lemma room_wf_release:
  "room_wf r \<Longrightarrow> room_wf (r\<lparr>assignments := release (assignments r) n\<rparr>)"
  by (simp add: room_wf_def release_nonempty)

lemma room_wf_players:
  "room_wf r \<Longrightarrow> \<forall>p \<in> set ps. pname p \<noteq> [] \<Longrightarrow> room_wf (r\<lparr>players := ps\<rparr>)"
  by (simp add: room_wf_def)

lemma room_wf_state:
  "room_wf r \<Longrightarrow> room_wf (r\<lparr>state := st, currentBeat := n\<rparr>)"
  "room_wf r \<Longrightarrow> room_wf (r\<lparr>currentBeat := n\<rparr>)"
  "room_wf r \<Longrightarrow> room_wf (r\<lparr>currentBeat := n, state := st\<rparr>)"
  by (simp_all add: room_wf_def)

lemma advanceBeat_wf:
  assumes "rooms_wf rs" and "advanceBeat c rs = Inr (rs', ou)"
  shows "rooms_wf rs'"
  using assms
  by (auto simp: advanceBeat_def Let_def sendCurrentBeat_def
      split: option.splits if_splits intro!: rooms_wf_upd room_wf_state dest: rooms_wfD)

lemma timerFire_wf:
  "rooms_wf rs \<Longrightarrow> timerFire t rs = Inr (rs', ou) \<Longrightarrow> rooms_wf rs'"
  by (auto simp: timerFire_def split: option.splits if_splits dest: advanceBeat_wf)

lemma createRoom_wf:
  assumes "rooms_wf rs" and "data_ok (sdata s)"
    and "createRoom cat rnd s name ix cb rs = Some (Inr res)"
  shows "rooms_wf (r_rooms res) \<and> data_ok (r_data res)"
proof (cases "cb \<and> trimmed name \<noteq> []")
  case False
  with assms show ?thesis by (auto simp: createRoom_def noop_def Let_def split: if_splits)
next
  case True
  with assms(3) obtain code sc where mk: "makeUniqueCode rnd 0 rs = Some code"
    and res: "res = \<lparr>r_rooms = rs(code \<mapsto>
                           \<lparr>hostId = sid s, hostName = trimmed name, players = [], script = sc,
                            assignments = initialAssignments (characters sc),
                            state = Lobby, currentBeat = 0, inheriting = True\<rparr>),
                        r_data = Some \<lparr>sd_code = code, sd_role = Host, sd_name = trimmed name\<rparr>,
                        r_ack = Some (AckCreated code (title sc) (characters sc)),
                        r_events = [], r_timers = []\<rparr>"
    by (auto simp: createRoom_def Let_def split: option.splits)
  from makeUniqueCode_sound[OF mk] have "code_ok code"
    by (auto simp: code_ok_def generateCode_nonempty generateCode_not_inherited)
  moreover have "room_wf \<lparr>hostId = sid s, hostName = trimmed name, players = [], script = sc,
                            assignments = initialAssignments (characters sc),
                            state = Lobby, currentBeat = 0, inheriting = True\<rparr>"
    using True by (auto simp: room_wf_def initialAssignments_apply dom_def)
  ultimately show ?thesis
    using assms(1) True unfolding res by (simp add: rooms_wf_upd data_ok_def)
qed

lemma joinRoom_wf:
  assumes "rooms_wf rs" and "data_ok (sdata s)" and "joinRoom s c name rs = Inr res"
  shows "rooms_wf (r_rooms res) \<and> data_ok (r_data res)"
proof (cases "rs c")
  case None
  with assms show ?thesis by (auto simp: joinRoom_def noop_def split: if_splits)
next
  case (Some r)
  from rooms_wfD[OF assms(1) Some] have wf: "room_wf r" and "code_ok c" by simp_all
  with assms Some show ?thesis
    by (auto simp: joinRoom_def noop_def Let_def data_ok_def room_wf_def split: if_splits
        intro!: rooms_wf_upd)
qed

lemma claimCharacter_wf:
  assumes "rooms_wf rs" and "data_ok (sdata s)"
  shows "rooms_wf (r_rooms (claimCharacter s ch rs)) \<and> data_ok (r_data (claimCharacter s ch rs))"
proof (cases s rs rule: bound_cases)
  case unbound
  with assms show ?thesis by (simp add: claimCharacter_def noop_def)
next
  case (bound d r)
  from rooms_wfD[OF assms(1) bound(2)] have wf: "room_wf r" and c: "code_ok (sd_code d)" by simp_all
  from assms(2) bound(3) have n: "sd_name d \<noteq> []" by (simp add: data_ok_def)
  have "room_wf (assign r ch v)" if "v \<noteq> Some []" for v
    using wf that by (rule room_wf_assign)
  with assms bound wf c n show ?thesis
    by (auto simp: claimCharacter_def Let_def noop_def intro!: rooms_wf_upd)
qed

lemma disconnect_wf:
  assumes "rooms_wf rs"
  shows "rooms_wf (r_rooms (disconnect s rs)) \<and> r_data (disconnect s rs) = sdata s"
proof (cases s rs rule: bound_cases)
  case unbound
  with assms show ?thesis by (simp add: disconnect_def noop_def)
next
  case (bound d r)
  from rooms_wfD[OF assms(1) bound(2)] have wf: "room_wf r" and c: "code_ok (sd_code d)" by simp_all
  have "room_wf (r\<lparr>players := filter (\<lambda>p. pid p \<noteq> sid s) (players r),
                    assignments := release (assignments r) (sd_name d)\<rparr>)"
    using wf by (auto simp: room_wf_def release_nonempty)
  with assms bound c show ?thesis
    by (auto simp: disconnect_def Let_def noop_def intro!: rooms_wf_upd rooms_wf_del)
qed

lemma forceAssign_wf:
  assumes "rooms_wf rs" and "forceAssign s ch toPlayer rs = Inr res"
  shows "rooms_wf (r_rooms res) \<and> r_data res = sdata s"
proof (cases s rs rule: bound_cases)
  case unbound
  with assms show ?thesis by (auto simp: forceAssign_def noop_def)
next
  case (bound d r)
  from rooms_wfD[OF assms(1) bound(2)] have wf: "room_wf r" and c: "code_ok (sd_code d)" by simp_all
  have "or_null toPlayer \<noteq> Some []" by (cases toPlayer) (auto simp: or_null_def)
  with wf have "room_wf (assign r ch (or_null toPlayer))"
    by (rule room_wf_assign)
  with assms bound c show ?thesis
    by (auto simp: forceAssign_def Let_def noop_def split: if_splits sum.splits intro!: rooms_wf_upd)
qed

lemma handToHost_wf:
  assumes "room_wf r" and "handToHost r P = Inr r1"
  shows "room_wf r1"
proof (cases "r1 = r")
  case True
  with assms show ?thesis by simp
next
  case False
  with assms(2) have r1: "r1 = r\<lparr>assignments := (assignments r)(bcharacter (beats (script r) ! currentBeat r)
                                        \<mapsto> Some (hostName r))\<rparr>"
    and own: "assignments r (bcharacter (beats (script r) ! currentBeat r)) = Some (Some P)"
    by (auto simp: handToHost_def Let_def split: if_splits)
  from assms(1) have "Some (hostName r) \<noteq> Some []" by (simp add: room_wf_def)
  with assms(1) show ?thesis
    unfolding r1 by (intro room_wf_store) simp_all
qed

lemma bootPlayer_wf:
  assumes "rooms_wf rs" and "bootPlayer live s P rs = Inr res"
  shows "rooms_wf (r_rooms res) \<and> r_data res = sdata s"
proof (cases s rs rule: bound_cases)
  case unbound
  with assms show ?thesis by (auto simp: bootPlayer_def noop_def)
next
  case (bound d r)
  from rooms_wfD[OF assms(1) bound(2)] have wf: "room_wf r" and c: "code_ok (sd_code d)" by simp_all
  have "room_wf (r1\<lparr>assignments := release (assignments r1) P,
                     players := filter (\<lambda>p. pname p \<noteq> P) (players r1)\<rparr>)"
    if "handToHost r P = Inr r1" for r1
    using handToHost_wf[OF wf that] by (auto simp: room_wf_def release_nonempty)
  with assms bound c show ?thesis
    by (auto simp: bootPlayer_def Let_def noop_def
        split: if_splits sum.splits option.splits intro!: rooms_wf_upd)
qed

lemma startPerformance_wf:
  assumes "rooms_wf rs" and "startPerformance s rs = Inr res"
  shows "rooms_wf (r_rooms res) \<and> r_data res = sdata s"
proof (cases s rs rule: bound_cases)
  case unbound
  with assms show ?thesis by (auto simp: startPerformance_def noop_def)
next
  case (bound d r)
  from rooms_wfD[OF assms(1) bound(2)] have wf: "room_wf r" and c: "code_ok (sd_code d)" by simp_all
  from wf have "room_wf (r\<lparr>state := Performance, currentBeat := 0\<rparr>)"
    by (rule room_wf_state)
  with assms bound c show ?thesis
    by (auto simp: startPerformance_def Let_def noop_def split: if_splits sum.splits intro!: rooms_wf_upd)
qed

lemma beatDone_wf:
  assumes "rooms_wf rs" and "beatDone s rs = Inr res"
  shows "rooms_wf (r_rooms res) \<and> r_data res = sdata s"
proof (cases s rs rule: bound_cases)
  case unbound
  with assms show ?thesis by (auto simp: beatDone_def noop_def)
next
  case (bound d r)
  with assms show ?thesis
    by (auto simp: beatDone_def Let_def noop_def split: if_splits sum.splits dest: advanceBeat_wf)
qed

lemma handle_wf:
  assumes "rooms_wf rs" and "data_ok (sdata s)"
    and "handle cat rnd live s req rs = Some (Inr res)"
  shows "rooms_wf (r_rooms res) \<and> data_ok (r_data res)"
proof (cases req)
  case (CreateRoom name ix cb)
  with assms createRoom_wf[of rs s cat rnd name ix cb res] show ?thesis by simp
next
  case (JoinRoom c name)
  with assms joinRoom_wf[of rs s c name res] show ?thesis by simp
next
  case (ClaimCharacter ch)
  with assms claimCharacter_wf[of rs s ch] show ?thesis by auto
next
  case (ForceAssign ch toPlayer)
  with assms forceAssign_wf[of rs s ch toPlayer res] show ?thesis by simp
next
  case (BootPlayer P)
  with assms bootPlayer_wf[of rs live s P res] show ?thesis by simp
next
  case StartPerformance
  with assms startPerformance_wf[of rs s res] show ?thesis by simp
next
  case BeatDone
  with assms beatDone_wf[of rs s res] show ?thesis by simp
next
  case Disconnect
  with assms disconnect_wf[of rs s] show ?thesis by auto
next
  case Ping
  with assms show ?thesis by (auto simp: noop_def)
qed

lemma reachable_names_ok: "reachable cat w \<Longrightarrow> names_ok w"
proof (induction rule: reachable.induct)
  case start
  show ?case by (simp add: names_ok_def rooms_wf_def data_ok_def)
next
  case (request w rnd live i req res)
  from request.IH have "rooms_wf (w_rooms w)" and "data_ok (sdata \<lparr>sid = i, sdata = w_socks w i\<rparr>)"
    by (simp_all add: names_ok_def)
  from handle_wf[OF this request.hyps(3)] request.IH show ?case
    by (auto simp: names_ok_def data_ok_def)
next
  case (timer w t rs' ou)
  then show ?case by (auto simp: names_ok_def dest: timerFire_wf)
qed

end
